theory Spec2Isabelle
  imports Main
begin

section \<open>Python values\<close>

text \<open>
  The server (\<^verbatim>\<open>src/mcp_server_nextgen/server.py\<close>) moves decoded JSON between an HTTP
  API and a protocol surface. The values it handles are the ones \<^verbatim>\<open>json.loads\<close> and
  \<^verbatim>\<open>response.json()\<close> produce: \<^verbatim>\<open>None\<close>, booleans, integers, strings, lists and
  dictionaries with string keys. A dictionary is the list of its items in insertion order
  (its keys are distinct; a lookup takes the first item with the key).
  Floating-point numbers are left out of the model, and strings are byte strings, so the
  model speaks about ASCII text.
\<close>

datatype json =
    JNull
  | JBool bool
  | JInt int
  | JStr string
  | JArr "json list"
  | JObj "(string \<times> json) list"

text \<open>
  Exceptions. Every exception the code can meet is a subclass of \<^verbatim>\<open>Exception\<close>, which
  is what its handlers catch; \<open>OtherError\<close> stands for the classes raised by libraries
  (HTTP status and transport errors, JSON decoding errors, OAuth errors, validation
  errors). Each carries the text \<^verbatim>\<open>str(e)\<close> renders, except \<open>KeyError\<close>, which carries
  the missing key.
\<close>

datatype exn =
    ValueError string
  | KeyError string
  | AttributeError string
  | TypeError string
  | OtherError string

definition quoted :: "string \<Rightarrow> string" where
  "quoted s = [CHR 0x27] @ s @ [CHR 0x27]"

fun str_exn :: "exn \<Rightarrow> string" where
  "str_exn (ValueError m) = m"
| "str_exn (KeyError k) = quoted k"
| "str_exn (AttributeError m) = m"
| "str_exn (TypeError m) = m"
| "str_exn (OtherError m) = m"

text \<open>Truthiness, as \<^verbatim>\<open>if x:\<close>, \<^verbatim>\<open>x or y\<close> and \<^verbatim>\<open>not x\<close> test it.\<close>

fun truthy :: "json \<Rightarrow> bool" where
  "truthy JNull = False"
| "truthy (JBool b) = b"
| "truthy (JInt n) = (n \<noteq> 0)"
| "truthy (JStr s) = (s \<noteq> [])"
| "truthy (JArr xs) = (xs \<noteq> [])"
| "truthy (JObj kvs) = (kvs \<noteq> [])"

fun type_name :: "json \<Rightarrow> string" where
  "type_name JNull = ''NoneType''"
| "type_name (JBool b) = ''bool''"
| "type_name (JInt n) = ''int''"
| "type_name (JStr s) = ''str''"
| "type_name (JArr xs) = ''list''"
| "type_name (JObj kvs) = ''dict''"

text \<open>
  \<^verbatim>\<open>x.get(k, d)\<close>: only a dictionary has the method; on any other value the attribute
  lookup raises \<^verbatim>\<open>AttributeError\<close>.
\<close>

definition no_attribute :: "json \<Rightarrow> string \<Rightarrow> exn" where
  "no_attribute x a =
     AttributeError (quoted (type_name x) @ '' object has no attribute '' @ quoted a)"

fun py_get :: "json \<Rightarrow> string \<Rightarrow> json \<Rightarrow> exn + json" where
  "py_get (JObj kvs) k d = Inr (case map_of kvs k of Some v \<Rightarrow> v | None \<Rightarrow> d)"
| "py_get x k d = Inl (no_attribute x ''get'')"

text \<open>
  Dictionary keys. \<^verbatim>\<open>True\<close> and \<^verbatim>\<open>False\<close> hash and compare equal to \<^verbatim>\<open>1\<close> and
  \<^verbatim>\<open>0\<close>, so they are the same key; lists and dictionaries are unhashable. A key is
  the value up to that equality: which entries a dictionary holds, and in which order, is
  what the model keeps. The interpreter also keeps the object first stored under a key,
  so that a key first stored as \<^verbatim>\<open>True\<close> is shown as a boolean; the model shows the
  integer. The two differ only in the type that the message of \<^verbatim>\<open>str.join\<close>'s
  \<^verbatim>\<open>TypeError\<close> names for a boolean id, and nothing below depends on that message.
\<close>

datatype pykey = KNone | KInt int | KStr string

fun hash_key :: "json \<Rightarrow> exn + pykey" where
  "hash_key JNull = Inr KNone"
| "hash_key (JBool b) = Inr (KInt (if b then 1 else 0))"
| "hash_key (JInt n) = Inr (KInt n)"
| "hash_key (JStr s) = Inr (KStr s)"
| "hash_key x = Inl (TypeError (''unhashable type: '' @ quoted (type_name x)))"

text \<open>
  \<^verbatim>\<open>d[k] = v\<close> on an insertion-ordered dictionary: an existing key keeps its place and
  gets the new value, a new key goes to the end.
\<close>

fun dict_set :: "'k \<Rightarrow> 'v \<Rightarrow> ('k \<times> 'v) list \<Rightarrow> ('k \<times> 'v) list" where
  "dict_set k v [] = [(k, v)]"
| "dict_set k v (p # ps) = (if fst p = k then (k, v) # ps else p # dict_set k v ps)"

type_synonym store = "(pykey \<times> json) list"

text \<open>
  \<^verbatim>\<open>for item in items\<close>: a list yields its elements, a dictionary its keys, a string its
  characters; \<^verbatim>\<open>None\<close>, booleans and integers are not iterable.
\<close>

fun iter_items :: "json \<Rightarrow> exn + json list" where
  "iter_items (JArr xs) = Inr xs"
| "iter_items (JObj kvs) = Inr (map (\<lambda>kv. JStr (fst kv)) kvs)"
| "iter_items (JStr s) = Inr (map (\<lambda>c. JStr [c]) s)"
| "iter_items x = Inl (TypeError (quoted (type_name x) @ '' object is not iterable''))"

section \<open>HTTP requests\<close>

text \<open>
  \<^verbatim>\<open>async_request(method, url, token, **kwargs)\<close> is the one door to the remote API. A
  call is recorded as a \<open>request\<close>; what comes back is a \<open>response\<close>: the decoded JSON
  body, or the exception \<^verbatim>\<open>async_request\<close> re-raises (a transport error, a non-2xx
  status, a body that is not JSON). The remote side is a script: the list of the responses
  it gives, in the order the requests arrive. A script that ends while the code still asks
  says nothing about that request, and the model returns \<open>None\<close> there.
\<close>

record request =
  req_method :: string
  req_url :: string
  req_token :: string
  req_params :: "(string \<times> json) list option"
  req_json :: "json option"

type_synonym response = "exn + json"

fun async_request :: "request \<Rightarrow> response list \<Rightarrow> (response \<times> response list) option" where
  "async_request req [] = None"
| "async_request req (r # script) = Some (r, script)"

definition GET :: "string \<Rightarrow> string \<Rightarrow> (string \<times> json) list \<Rightarrow> request" where
  "GET url token params =
     \<lparr>req_method = ''GET'', req_url = url, req_token = token,
      req_params = Some params, req_json = None\<rparr>"

section \<open>Entity retrieval\<close>

text \<open>
  \<^verbatim>\<open>items = response.get("items") or response.get("value", [])\<close>
\<close>

definition page_items :: "json \<Rightarrow> exn + json" where
  "page_items response =
     (case py_get response ''items'' JNull of
        Inl e \<Rightarrow> Inl e
      | Inr a \<Rightarrow> if truthy a then Inr a else py_get response ''value'' (JArr []))"

text \<open>
  \<^verbatim>\<open>next_token = response.get("nextPageToken") or response.get("@odata.nextLink")\<close>
\<close>

definition next_token :: "json \<Rightarrow> exn + json" where
  "next_token response =
     (case py_get response ''nextPageToken'' JNull of
        Inl e \<Rightarrow> Inl e
      | Inr a \<Rightarrow> if truthy a then Inr a else py_get response ''@odata.nextLink'' JNull)"

text \<open>
  The body of \<^verbatim>\<open>for item in items\<close>:
  \<^verbatim>\<open>
    entity = item.get("entity", item)
    entity_id = entity.get("id")
    if entity_id:
        store[entity_id] = entity
  \<close>
  An exception leaves the loop at once; the store keeps what was written before it.
\<close>

fun merge_items :: "json list \<Rightarrow> store \<Rightarrow> exn option \<times> store" where
  "merge_items [] st = (None, st)"
| "merge_items (item # items) st =
     (case py_get item ''entity'' item of
        Inl e \<Rightarrow> (Some e, st)
      | Inr entity \<Rightarrow>
          (case py_get entity ''id'' JNull of
             Inl e \<Rightarrow> (Some e, st)
           | Inr entity_id \<Rightarrow>
               if truthy entity_id then
                 (case hash_key entity_id of
                    Inl e \<Rightarrow> (Some e, st)
                  | Inr k \<Rightarrow> merge_items items (dict_set k entity st))
               else merge_items items st))"

definition merge_page :: "json \<Rightarrow> store \<Rightarrow> exn option \<times> store" where
  "merge_page response st =
     (case page_items response of
        Inl e \<Rightarrow> (Some e, st)
      | Inr items \<Rightarrow>
          (case iter_items items of
             Inl e \<Rightarrow> (Some e, st)
           | Inr xs \<Rightarrow> merge_items xs st))"

text \<open>
  \<^verbatim>\<open>isinstance(next_token, str) and next_token.startswith("http")\<close>
\<close>

fun is_http :: "json \<Rightarrow> bool" where
  "is_http (JStr s) = (take 4 s = ''http'')"
| "is_http x = False"

fun the_str :: "json \<Rightarrow> string" where
  "the_str (JStr s) = s"
| "the_str x = []"

text \<open>
  The \<^verbatim>\<open>while True\<close> loop inside the \<^verbatim>\<open>try\<close> of \<^verbatim>\<open>retrieve_entities\<close>. Each round
  sends one GET and takes the script's next response. The result is the exception that
  left the loop (if one did), the store, and the requests sent.
\<close>

fun retrieve_loop ::
  "string \<Rightarrow> response list \<Rightarrow> string \<Rightarrow> (string \<times> json) list \<Rightarrow> store \<Rightarrow> request list
     \<Rightarrow> (exn option \<times> store \<times> request list) option" where
  "retrieve_loop token [] url params st sent = None"
| "retrieve_loop token (r # script) url params st sent =
     (case r of
        Inl e \<Rightarrow> Some (Some e, st, sent @ [GET url token params])
      | Inr response \<Rightarrow>
          (case merge_page response st of
             (Some e, st') \<Rightarrow> Some (Some e, st', sent @ [GET url token params])
           | (None, st') \<Rightarrow>
               (case next_token response of
                  Inl e \<Rightarrow> Some (Some e, st', sent @ [GET url token params])
                | Inr nt \<Rightarrow>
                    if truthy nt then
                      if is_http nt then
                        retrieve_loop token script (the_str nt) [] st'
                          (sent @ [GET url token params])
                      else
                        retrieve_loop token script url [(''pagetoken'', nt)] st'
                          (sent @ [GET url token params])
                    else Some (None, st', sent @ [GET url token params]))))"

text \<open>
  The in-memory stores. \<^verbatim>\<open>internal_resources\<close> is the staging side, \<^verbatim>\<open>resources\<close> the
  published side; both are keyed by the entity kind. \<^verbatim>\<open>internal_resources["workqueues"]\<close>
  holds the rows of the dynamic tool table instead of entities and is the field
  \<open>workqueues\<close>; \<^verbatim>\<open>resources["workqueues"]\<close> is never written and is left out.
\<close>

datatype kind = Automationflows | Activitylogs | Digitalworkers | Sessions

fun kind_name :: "kind \<Rightarrow> string" where
  "kind_name Automationflows = ''automationflows''"
| "kind_name Activitylogs = ''activitylogs''"
| "kind_name Digitalworkers = ''digitalworkers''"
| "kind_name Sessions = ''sessions''"

type_synonym csv_row = "(string \<times> string option) list"

record state =
  internal_resources :: "kind \<Rightarrow> store"
  workqueues :: "(string option \<times> csv_row) list"
  resources :: "kind \<Rightarrow> store"

text \<open>What \<^verbatim>\<open>retrieve_entities\<close> writes to the log before it returns.\<close>

datatype walk_log = Successfully_retrieved nat | Error_retrieving exn

text \<open>
  \<^verbatim>\<open>retrieve_entities(token, url, key, args)\<close>. The store object is
  \<^verbatim>\<open>internal_resources[key]\<close> itself, cleared in place (\<^verbatim>\<open>store.clear()\<close>) and then
  filled by the loop, so the returned mapping and the staging mapping of the kind are the
  same value. Both exits return the store: the normal one and the \<^verbatim>\<open>except Exception\<close>
  one. The loop pattern-matches the script where the source calls \<^verbatim>\<open>async_request\<close>.
\<close>

definition retrieve_entities ::
  "string \<Rightarrow> string \<Rightarrow> kind \<Rightarrow> (string \<times> json) list \<Rightarrow> response list \<Rightarrow> state
     \<Rightarrow> (store \<times> walk_log \<times> state \<times> request list) option" where
  "retrieve_entities token url key args script s =
     (let cleared = s\<lparr>internal_resources := (internal_resources s)(key := [])\<rparr>;
          params = (case map_of args ''environment'' of
                      Some v \<Rightarrow> [(''environmentId.eq'', v)]
                    | None \<Rightarrow> [])
      in case retrieve_loop token script url params (internal_resources cleared key) [] of
           None \<Rightarrow> None
         | Some (exc, st, sent) \<Rightarrow>
             Some (st,
                   (case exc of
                      None \<Rightarrow> Successfully_retrieved (length st)
                    | Some e \<Rightarrow> Error_retrieving e),
                   cleared\<lparr>internal_resources := (internal_resources cleared)(key := st)\<rparr>,
                   sent))"

section \<open>Text helpers\<close>

text \<open>Decimal rendering of \<^verbatim>\<open>len(...)\<close> and of integers inside f-strings.\<close>

fun show_nat :: "nat \<Rightarrow> string" where
  "show_nat n =
     (if n < 10 then [char_of (48 + n)]
      else show_nat (n div 10) @ [char_of (48 + n mod 10)])"

declare show_nat.simps [simp del]

definition show_int :: "int \<Rightarrow> string" where
  "show_int i = (if i < 0 then ''-'' @ show_nat (nat (- i)) else show_nat (nat i))"

text \<open>\<^verbatim>\<open>sep.join(parts)\<close> on strings.\<close>

fun join :: "string \<Rightarrow> string list \<Rightarrow> string" where
  "join sep [] = []"
| "join sep [x] = x"
| "join sep (x # y # ys) = x @ sep @ join sep (y # ys)"

text \<open>
  \<^verbatim>\<open>str.join\<close> accepts strings only: the first element of another type raises
  \<^verbatim>\<open>TypeError\<close>, naming its position.
\<close>

fun all_str :: "nat \<Rightarrow> json list \<Rightarrow> exn + string list" where
  "all_str i [] = Inr []"
| "all_str i (JStr s # xs) =
     (case all_str (Suc i) xs of Inl e \<Rightarrow> Inl e | Inr ss \<Rightarrow> Inr (s # ss))"
| "all_str i (x # xs) =
     Inl (TypeError (''sequence item '' @ show_nat i @ '': expected str instance, ''
                     @ type_name x @ '' found''))"

definition str_join :: "string \<Rightarrow> json list \<Rightarrow> exn + string" where
  "str_join sep xs = (case all_str 0 xs of Inl e \<Rightarrow> Inl e | Inr ss \<Rightarrow> Inr (join sep ss))"

text \<open>\<^verbatim>\<open>str.strip()\<close> and \<^verbatim>\<open>str.split(",")\<close>, on ASCII text.\<close>

definition is_space :: "char \<Rightarrow> bool" where
  "is_space c = (c = CHR '' '' \<or> (9 \<le> (of_char c :: nat) \<and> (of_char c :: nat) \<le> 13)
                 \<or> (28 \<le> (of_char c :: nat) \<and> (of_char c :: nat) \<le> 31))"

definition strip :: "string \<Rightarrow> string" where
  "strip s = rev (dropWhile is_space (rev (dropWhile is_space s)))"

fun split_comma :: "string \<Rightarrow> string list" where
  "split_comma [] = [[]]"
| "split_comma (c # cs) =
     (if c = CHR '','' then [] # split_comma cs
      else (case split_comma cs of w # ws \<Rightarrow> (c # w) # ws | [] \<Rightarrow> [[c]]))"

text \<open>
  \<^verbatim>\<open>int(text)\<close> in base 10, on ASCII text: surrounding whitespace is dropped, one sign may
  lead, and single underscores may stand between digits. Anything else raises
  \<^verbatim>\<open>ValueError\<close>. The whitespace \<^verbatim>\<open>int\<close> drops is the space and the characters 9 to 13
  only; the separators 28 to 31, which \<^verbatim>\<open>str.strip\<close> drops, are not part of it. (The
  interpreter's limit on the number of digits is not modelled.)
\<close>

definition int_space :: "char \<Rightarrow> bool" where
  "int_space c = (c = CHR '' '' \<or> (9 \<le> (of_char c :: nat) \<and> (of_char c :: nat) \<le> 13))"

definition int_strip :: "string \<Rightarrow> string" where
  "int_strip s = rev (dropWhile int_space (rev (dropWhile int_space s)))"

definition is_digit :: "char \<Rightarrow> bool" where
  "is_digit c = (48 \<le> (of_char c :: nat) \<and> (of_char c :: nat) \<le> 57)"

definition digit_val :: "char \<Rightarrow> nat" where
  "digit_val c = of_char c - 48"

fun int_digits :: "string \<Rightarrow> nat \<Rightarrow> bool \<Rightarrow> nat option" where
  "int_digits [] acc after_underscore = (if after_underscore then None else Some acc)"
| "int_digits (c # cs) acc after_underscore =
     (if is_digit c then int_digits cs (10 * acc + digit_val c) False
      else if c = CHR ''_'' \<and> \<not> after_underscore then int_digits cs acc True
      else None)"

definition int_unsigned :: "string \<Rightarrow> nat option" where
  "int_unsigned s =
     (case s of
        [] \<Rightarrow> None
      | c # cs \<Rightarrow> if is_digit c then int_digits cs (digit_val c) False else None)"

definition invalid_literal :: "(json \<Rightarrow> string) \<Rightarrow> string \<Rightarrow> exn" where
  "invalid_literal repr s = ValueError (''invalid literal for int() with base 10: '' @ repr (JStr s))"

definition py_int :: "(json \<Rightarrow> string) \<Rightarrow> string \<Rightarrow> exn + int" where
  "py_int repr s =
     (case int_strip s of
        [] \<Rightarrow> Inl (invalid_literal repr s)
      | c # cs \<Rightarrow>
          if c = CHR ''-'' then
            (case int_unsigned cs of None \<Rightarrow> Inl (invalid_literal repr s) | Some n \<Rightarrow> Inr (- int n))
          else if c = CHR ''+'' then
            (case int_unsigned cs of None \<Rightarrow> Inl (invalid_literal repr s) | Some n \<Rightarrow> Inr (int n))
          else
            (case int_unsigned (c # cs) of None \<Rightarrow> Inl (invalid_literal repr s) | Some n \<Rightarrow> Inr (int n)))"

section \<open>Environment\<close>

text \<open>
  What the handlers take from outside the file:
  \<^item> \<open>BASE_URL\<close>: the environment variable, as an f-string renders it;
  \<^item> \<open>get_access_token\<close>: the outcome of the OAuth client-credentials exchange, the
    token or the exception that \<^verbatim>\<open>get_access_token()\<close> re-raises;
  \<^item> \<open>session\<close>: \<open>None\<close> when \<^verbatim>\<open>server.request_context.session\<close> is falsy, else the
    outcome of \<^verbatim>\<open>send_resource_list_changed()\<close> (\<open>Some e\<close> when it raises);
  \<^item> \<open>py_repr\<close>: the interpreter's \<^verbatim>\<open>repr\<close> of a value;
  \<^item> \<open>tostring_b64\<close>: \<^verbatim>\<open>ET.tostring\<close> followed by the base64 coding, which raises on an
    attribute value that is not a string;
  \<^item> \<open>json_dumps\<close>: \<^verbatim>\<open>json.dumps(..., indent=4)\<close>; the flag is \<^verbatim>\<open>ensure_ascii\<close>.
\<close>

datatype element = Element string "(string \<times> json) list" "element list"

record env =
  BASE_URL :: string
  get_access_token :: "exn + string"
  session :: "exn option option"
  py_repr :: "json \<Rightarrow> string"
  tostring_b64 :: "element \<Rightarrow> exn + string"
  json_dumps :: "bool \<Rightarrow> json \<Rightarrow> string"

definition AUTOMATIONFLOW_URL :: "env \<Rightarrow> string" where
  "AUTOMATIONFLOW_URL E = BASE_URL E @ ''/automation-flows''"

definition ACTIVITYLOG_URL :: "env \<Rightarrow> string" where
  "ACTIVITYLOG_URL E = BASE_URL E @ ''/automation-flows/executions''"

definition DIGITALWORKER_URL :: "env \<Rightarrow> string" where
  "DIGITALWORKER_URL E = BASE_URL E @ ''/digital-workers''"

definition SESSION_URL :: "env \<Rightarrow> string" where
  "SESSION_URL E = BASE_URL E @ ''/sessions''"

text \<open>A value inside an f-string: \<^verbatim>\<open>str(v)\<close>.\<close>

fun py_str :: "env \<Rightarrow> json \<Rightarrow> string" where
  "py_str E JNull = ''None''"
| "py_str E (JBool b) = (if b then ''True'' else ''False'')"
| "py_str E (JInt n) = show_int n"
| "py_str E (JStr s) = s"
| "py_str E x = py_repr E x"

text \<open>
  \<^verbatim>\<open>if server.request_context and server.request_context.session:
      await server.request_context.session.send_resource_list_changed()\<close>
\<close>

definition notify :: "env \<Rightarrow> exn option" where
  "notify E = (case session E of None \<Rightarrow> None | Some outcome \<Rightarrow> outcome)"

section \<open>Helper functions\<close>

text \<open>
  \<^verbatim>\<open>create_collection_xml(fields)\<close>: one \<^verbatim>\<open>row\<close> under \<^verbatim>\<open>collection\<close>, one \<^verbatim>\<open>field\<close>
  element per item of the dictionary.
\<close>

definition create_collection_xml :: "env \<Rightarrow> (string \<times> json) list \<Rightarrow> exn + string" where
  "create_collection_xml E flds =
     tostring_b64 E
       (Element ''collection'' []
          [Element ''row'' []
             (map (\<lambda>nv. Element ''field''
                           [(''name'', JStr (fst nv)), (''type'', JStr ''text''), (''value'', snd nv)] [])
                  flds)])"

text \<open>
  \<^verbatim>\<open>format_resource_result(store, fields)\<close>:
  \<^verbatim>\<open>
    for key, val in store.items():
        row = [val.get(field, "") for field in fields]
        rows.append("|".join([key] + row))
    return "\n".join(rows)
  \<close>
\<close>

fun key_value :: "pykey \<Rightarrow> json" where
  "key_value KNone = JNull"
| "key_value (KInt n) = JInt n"
| "key_value (KStr s) = JStr s"

fun row_values :: "json \<Rightarrow> string list \<Rightarrow> exn + json list" where
  "row_values val [] = Inr []"
| "row_values val (field # flds) =
     (case py_get val field (JStr []) of
        Inl e \<Rightarrow> Inl e
      | Inr v \<Rightarrow> (case row_values val flds of Inl e \<Rightarrow> Inl e | Inr vs \<Rightarrow> Inr (v # vs)))"

fun format_rows :: "store \<Rightarrow> string list \<Rightarrow> exn + string list" where
  "format_rows [] flds = Inr []"
| "format_rows (kv # rest) flds =
     (case row_values (snd kv) flds of
        Inl e \<Rightarrow> Inl e
      | Inr row \<Rightarrow>
          (case str_join ''|'' (key_value (fst kv) # row) of
             Inl e \<Rightarrow> Inl e
           | Inr line \<Rightarrow>
               (case format_rows rest flds of
                  Inl e \<Rightarrow> Inl e
                | Inr lines \<Rightarrow> Inr (line # lines))))"

definition format_resource_result :: "store \<Rightarrow> string list \<Rightarrow> exn + string" where
  "format_resource_result st flds =
     (case format_rows st flds of Inl e \<Rightarrow> Inl e | Inr rows \<Rightarrow> Inr (join [CHR 0x0A] rows))"




section \<open>Tool dispatch\<close>

text \<open>
  The payload of a work-queue item, the dictionary literal of \<^verbatim>\<open>handle_call_tool\<close>:
  \<^verbatim>\<open>
    {"keyValue": config.get("keyValue", "Key0001"),
     "priority": int(config.get("priority") or "100"),
     "deferredUntil": None,
     "status": config.get("status", "Added by MCP Server"),
     "tags": [tag.strip() for tag in ... .split(",")],
     "data": create_collection_xml(arguments)}
  \<close>
  Its values are evaluated in this order, and the first exception ends the evaluation. The
  literal is written twice: once for the log, where the tags come from
  \<^verbatim>\<open>config.get("tags", "tag1")\<close>, and once as the body of the request, where they come
  from \<^verbatim>\<open>(config.get("tags") or "tag1")\<close>. The flag \<open>logged\<close> selects the first.
\<close>

fun cell_json :: "string option \<Rightarrow> json" where
  "cell_json None = JNull"
| "cell_json (Some s) = JStr s"

definition config_get :: "csv_row \<Rightarrow> string \<Rightarrow> json \<Rightarrow> json" where
  "config_get config k d = (case map_of config k of None \<Rightarrow> d | Some cell \<Rightarrow> cell_json cell)"

definition config_priority :: "env \<Rightarrow> csv_row \<Rightarrow> exn + int" where
  "config_priority E config =
     (case config_get config ''priority'' JNull of
        JStr s \<Rightarrow> if s \<noteq> [] then py_int (py_repr E) s else py_int (py_repr E) ''100''
      | other \<Rightarrow> py_int (py_repr E) ''100'')"

definition config_tags :: "bool \<Rightarrow> csv_row \<Rightarrow> exn + json" where
  "config_tags logged config =
     (if logged then
        (case config_get config ''tags'' (JStr ''tag1'') of
           JStr s \<Rightarrow> Inr (JArr (map (\<lambda>tag. JStr (strip tag)) (split_comma s)))
         | other \<Rightarrow> Inl (no_attribute other ''split''))
      else
        (case config_get config ''tags'' JNull of
           JStr s \<Rightarrow>
             Inr (JArr (map (\<lambda>tag. JStr (strip tag))
                            (split_comma (if s \<noteq> [] then s else ''tag1''))))
         | other \<Rightarrow> Inr (JArr (map (\<lambda>tag. JStr (strip tag)) (split_comma ''tag1'')))))"

definition payload :: "env \<Rightarrow> bool \<Rightarrow> csv_row \<Rightarrow> (string \<times> json) list \<Rightarrow> exn + json" where
  "payload E logged config arguments =
     (case config_priority E config of
        Inl e \<Rightarrow> Inl e
      | Inr priority \<Rightarrow>
          (case config_tags logged config of
             Inl e \<Rightarrow> Inl e
           | Inr tags \<Rightarrow>
               (case create_collection_xml E arguments of
                  Inl e \<Rightarrow> Inl e
                | Inr data \<Rightarrow>
                    Inr (JObj [(''keyValue'', config_get config ''keyValue'' (JStr ''Key0001'')),
                               (''priority'', JInt priority),
                               (''deferredUntil'', JNull),
                               (''status'', config_get config ''status'' (JStr ''Added by MCP Server'')),
                               (''tags'', tags),
                               (''data'', JStr data)]))))"

definition POST :: "string \<Rightarrow> string \<Rightarrow> json option \<Rightarrow> request" where
  "POST url token body =
     \<lparr>req_method = ''POST'', req_url = url, req_token = token,
      req_params = None, req_json = body\<rparr>"

text \<open>
  The three branches of \<^verbatim>\<open>handle_call_tool\<close>. Each \<open>try_\<close> function is the body of
  the branch's \<^verbatim>\<open>try\<close>: it returns the text of the result or the exception that leaves
  the body, together with the stores as the body left them and the requests it sent.
\<close>

type_synonym outcome = "(exn + string list) \<times> state \<times> request list"

definition try_work_queue ::
  "env \<Rightarrow> response list \<Rightarrow> csv_row \<Rightarrow> (string \<times> json) list option \<Rightarrow> state
     \<Rightarrow> outcome option" where
  "try_work_queue E script config arguments s =
     (case arguments of
        None \<Rightarrow> Some (Inl (ValueError ''Missing arguments''), s, [])
      | Some [] \<Rightarrow> Some (Inl (ValueError ''Missing arguments''), s, [])
      | Some (a # as) \<Rightarrow>
          (case get_access_token E of
             Inl e \<Rightarrow> Some (Inl e, s, [])
           | Inr token \<Rightarrow>
               if token = [] then Some (Inl (ValueError ''Invalid Client ID or Secret''), s, [])
               else
                 (case map_of config ''workqueueid'' of
                    None \<Rightarrow> Some (Inl (KeyError ''workqueueid''), s, [])
                  | Some queue \<Rightarrow>
                      (case payload E True config (a # as) of
                         Inl e \<Rightarrow> Some (Inl e, s, [])
                       | Inr logged \<Rightarrow>
                           (case payload E False config (a # as) of
                              Inl e \<Rightarrow> Some (Inl e, s, [])
                            | Inr body \<Rightarrow>
                                (let req = POST (BASE_URL E @ ''/work-queues/''
                                                 @ py_str E (cell_json queue) @ ''/items'')
                                             token (Some body)
                                 in case async_request req script of
                                      None \<Rightarrow> None
                                    | Some (Inl e, rest) \<Rightarrow> Some (Inl e, s, [req])
                                    | Some (Inr result, rest) \<Rightarrow>
                                        (case py_get result ''itemId'' JNull of
                                           Inl e \<Rightarrow> Some (Inl e, s, [req])
                                         | Inr item \<Rightarrow>
                                             Some (Inr [''Work queue item created: '' @ py_str E item],
                                                   s, [req]))))))))"

definition try_start_flow ::
  "env \<Rightarrow> response list \<Rightarrow> (string \<times> json) list option \<Rightarrow> state \<Rightarrow> outcome option" where
  "try_start_flow E script arguments s =
     (case arguments of
        None \<Rightarrow> Some (Inl (ValueError ''Missing arguments''), s, [])
      | Some [] \<Rightarrow> Some (Inl (ValueError ''Missing arguments''), s, [])
      | Some (a # as) \<Rightarrow>
          (case get_access_token E of
             Inl e \<Rightarrow> Some (Inl e, s, [])
           | Inr token \<Rightarrow>
               if token = [] then Some (Inl (ValueError ''Invalid Client ID or Secret''), s, [])
               else
                 (case map_of (a # as) ''automation_flow_id'' of
                    None \<Rightarrow> Some (Inl (KeyError ''automation_flow_id''), s, [])
                  | Some flow_id \<Rightarrow>
                      (let req = POST (AUTOMATIONFLOW_URL E @ ''/'' @ py_str E flow_id
                                       @ ''/executions'') token None
                       in case async_request req script of
                            None \<Rightarrow> None
                          | Some (Inl e, rest) \<Rightarrow> Some (Inl e, s, [req])
                          | Some (Inr result, rest) \<Rightarrow>
                              (case py_get result ''id'' (JStr []) of
                                 Inl e \<Rightarrow> Some (Inl e, s, [req])
                               | Inr exec_id \<Rightarrow>
                                   if truthy exec_id then
                                     (case hash_key exec_id of
                                        Inl e \<Rightarrow> Some (Inl e, s, [req])
                                      | Inr k \<Rightarrow>
                                          (let s' = s\<lparr>resources := (resources s)
                                                      (Activitylogs :=
                                                         dict_set k (JObj [(''id'', exec_id)])
                                                           (resources s Activitylogs))\<rparr>
                                           in case notify E of
                                                Some e \<Rightarrow> Some (Inl e, s', [req])
                                              | None \<Rightarrow>
                                                  Some (Inr [''Started automation flow: ''
                                                             @ py_str E exec_id], s', [req])))
                                   else Some (Inl (ValueError ''Execution ID not returned''),
                                              s, [req]))))))"

text \<open>
  The retrieval branch. \<^verbatim>\<open>args\<close> is the arguments when they are truthy and an empty
  dictionary otherwise, but \<^verbatim>\<open>set_resource\<close> is read from \<^verbatim>\<open>arguments\<close> itself, which
  may be \<^verbatim>\<open>None\<close>.
\<close>

definition try_retrieve ::
  "env \<Rightarrow> response list \<Rightarrow> string \<Rightarrow> kind \<Rightarrow> string list
     \<Rightarrow> (string \<times> json) list option \<Rightarrow> state \<Rightarrow> outcome option" where
  "try_retrieve E script url key flds arguments s =
     (let args = (case arguments of None \<Rightarrow> [] | Some [] \<Rightarrow> [] | Some (a # as) \<Rightarrow> a # as)
      in case get_access_token E of
           Inl e \<Rightarrow> Some (Inl e, s, [])
         | Inr token \<Rightarrow>
             if token = [] then Some (Inl (ValueError ''Invalid Client ID or Secret''), s, [])
             else
               (case retrieve_entities token url key args script s of
                  None \<Rightarrow> None
                | Some (updated_store, logged, s', sent) \<Rightarrow>
                    (case notify E of
                       Some e \<Rightarrow> Some (Inl e, s', sent)
                     | None \<Rightarrow>
                         (case format_resource_result updated_store flds of
                            Inl e \<Rightarrow> Some (Inl e, s', sent)
                          | Inr result_text \<Rightarrow>
                              (case arguments of
                                 None \<Rightarrow> Some (Inl (no_attribute JNull ''get''), s', sent)
                               | Some a \<Rightarrow>
                                   (case py_get (JObj a) ''set_resource'' JNull of
                                      Inl e \<Rightarrow> Some (Inl e, s', sent)
                                    | Inr flag \<Rightarrow>
                                        if truthy flag then
                                          Some (Inr [''Resource refreshed. Retrieved ''
                                                     @ show_nat (length updated_store) @ '' ''
                                                     @ kind_name key @ ''.'' @ [CHR 0x0A]
                                                     @ result_text],
                                                s'\<lparr>resources := (resources s')
                                                     (key := internal_resources s' key)\<rparr>,
                                                sent)
                                        else
                                          Some (Inr [''Retrieved ''
                                                     @ show_nat (length updated_store) @ '' ''
                                                     @ kind_name key @ ''.'' @ [CHR 0x0A]
                                                     @ result_text],
                                                s', sent)))))))"

text \<open>The table of the retrieval tools: endpoint, kind and the fields to show.\<close>

definition mapping :: "env \<Rightarrow> (string \<times> string \<times> kind \<times> string list) list" where
  "mapping E =
     [(''retrieve-automation-flow-list'',
         (AUTOMATIONFLOW_URL E, Automationflows, [''name'', ''description''])),
      (''retrieve-activity-log-list'',
         (ACTIVITYLOG_URL E, Activitylogs, [''status'', ''automationFlowName''])),
      (''retrieve-digital-worker-list'',
         (DIGITALWORKER_URL E, Digitalworkers, [''hostName'', ''status''])),
      (''retrieve-session-list'',
         (SESSION_URL E, Sessions, [''status'', ''requestedDate'']))]"

text \<open>
  An exception caught by a branch's \<^verbatim>\<open>except Exception\<close> becomes the text of the result.
\<close>

definition caught :: "string \<Rightarrow> outcome option \<Rightarrow> outcome option" where
  "caught prefix r =
     (case r of
        None \<Rightarrow> None
      | Some (Inl e, s, sent) \<Rightarrow> Some (Inr [prefix @ str_exn e], s, sent)
      | Some (Inr texts, s, sent) \<Rightarrow> Some (Inr texts, s, sent))"

text \<open>
  \<^verbatim>\<open>handle_call_tool(name, arguments)\<close>. \<open>Inl\<close> in the first component is an exception
  that leaves the handler; \<open>Inr\<close> is the list of the texts it returns.
\<close>

definition handle_call_tool ::
  "env \<Rightarrow> response list \<Rightarrow> string \<Rightarrow> (string \<times> json) list option \<Rightarrow> state
     \<Rightarrow> outcome option" where
  "handle_call_tool E script name arguments s =
     (case map_of (workqueues s) (Some name) of
        Some config \<Rightarrow>
          caught ''Error creating work queue item: '' (try_work_queue E script config arguments s)
      | None \<Rightarrow>
          if name = ''start-automation-flow'' then
            caught ''Error starting automation flow: '' (try_start_flow E script arguments s)
          else if take 9 name = ''retrieve-'' then
            (case map_of (mapping E) name of
               None \<Rightarrow> Some (Inl (ValueError (''Unknown tool: '' @ name)), s, [])
             | Some (url, key, flds) \<Rightarrow>
                 caught (''Error '' @ kind_name key @ '': '')
                   (try_retrieve E script url key flds arguments s))
          else Some (Inl (ValueError (''Unknown tool: '' @ name)), s, []))"

section \<open>Reading a resource\<close>

text \<open>
  \<^verbatim>\<open>handle_read_resource(uri)\<close>. Of the URI the handler reads the scheme and the path; the
  path is \<^verbatim>\<open>None\<close> when the URI has none. The scheme check, the path and the token come
  before the \<^verbatim>\<open>try\<close>; only the detail request stands inside it.
\<close>

record uri =
  scheme :: string
  path :: "string option"

definition scheme_to_url :: "env \<Rightarrow> (string \<times> string) list" where
  "scheme_to_url E =
     [(''automationflows'', AUTOMATIONFLOW_URL E),
      (''activitylogs'', ACTIVITYLOG_URL E),
      (''digitalworkers'', DIGITALWORKER_URL E),
      (''sessions'', SESSION_URL E),
      (''automationflow'', AUTOMATIONFLOW_URL E),
      (''activitylog'', ACTIVITYLOG_URL E),
      (''digitalworker'', DIGITALWORKER_URL E),
      (''session'', SESSION_URL E)]"

definition handle_read_resource ::
  "env \<Rightarrow> response list \<Rightarrow> uri \<Rightarrow> ((exn + string) \<times> request list) option" where
  "handle_read_resource E script u =
     (case map_of (scheme_to_url E) (scheme u) of
        None \<Rightarrow> Some (Inl (ValueError (''Unsupported URI scheme: '' @ scheme u)), [])
      | Some base \<Rightarrow>
          (case path u of
             None \<Rightarrow> Some (Inl (no_attribute JNull ''lstrip''), [])
           | Some p \<Rightarrow>
               (case get_access_token E of
                  Inl e \<Rightarrow> Some (Inl e, [])
                | Inr token \<Rightarrow>
                    (let resource_id = dropWhile (\<lambda>c. c = CHR ''/'') p;
                         url = base @ ''/'' @ resource_id
                               @ (if scheme u \<in> set [''activitylog'', ''activitylogs'']
                                  then ''/logs'' else []);
                         req = \<lparr>req_method = ''GET'', req_url = url, req_token = token,
                                req_params = None, req_json = None\<rparr>
                      in case async_request req script of
                           None \<Rightarrow> None
                         | Some (Inl e, rest) \<Rightarrow>
                             Some (Inr (json_dumps E True (JObj [(''error'', JStr (str_exn e))])),
                                   [req])
                         | Some (Inr detail, rest) \<Rightarrow>
                             Some (Inr (json_dumps E False detail), [req])))))"

section \<open>The specification's notions\<close>

text \<open>
  The definitions of this section follow the words of the specification, not the code;
  the theorems compare them with the code.

  The item list of a page by presence: the \<^verbatim>\<open>items\<close> array when the key is present (even
  when empty), otherwise the \<^verbatim>\<open>value\<close> array, otherwise no items.
\<close>

definition spec_item_list :: "(string \<times> json) list \<Rightarrow> json" where
  "spec_item_list kvs =
     (case map_of kvs ''items'' of
        Some a \<Rightarrow> a
      | None \<Rightarrow> (case map_of kvs ''value'' of Some b \<Rightarrow> b | None \<Rightarrow> JArr []))"

text \<open>A field that is absent, or present with a falsy value (empty, null, zero, false).\<close>

fun absent_or_falsy :: "json option \<Rightarrow> bool" where
  "absent_or_falsy None = True"
| "absent_or_falsy (Some a) = (\<not> truthy a)"

text \<open>
  The continuation value of a page: the \<^verbatim>\<open>nextPageToken\<close> field, or else the
  \<^verbatim>\<open>@odata.nextLink\<close> field, the first of the two that holds a truthy value winning.
\<close>

definition continuation :: "(string \<times> json) list \<Rightarrow> json" where
  "continuation kvs =
     (if \<not> absent_or_falsy (map_of kvs ''nextPageToken'') then the (map_of kvs ''nextPageToken'')
      else if map_of kvs ''@odata.nextLink'' \<noteq> None then the (map_of kvs ''@odata.nextLink'')
      else JNull)"

text \<open>
  The entity of an item: the inner \<^verbatim>\<open>entity\<close> object when the item wraps one, the item
  itself otherwise. The key of an entity: its \<^verbatim>\<open>id\<close>, when the entity has a truthy one.
\<close>

definition entity_of :: "json \<Rightarrow> json" where
  "entity_of item =
     (case item of
        JObj kvs \<Rightarrow> (case map_of kvs ''entity'' of Some en \<Rightarrow> en | None \<Rightarrow> item)
      | other \<Rightarrow> item)"

definition keyed :: "json \<Rightarrow> (pykey \<times> json) option" where
  "keyed en =
     (case en of
        JObj kvs \<Rightarrow>
          (case map_of kvs ''id'' of
             None \<Rightarrow> None
           | Some i \<Rightarrow>
               if truthy i then (case hash_key i of Inl e \<Rightarrow> None | Inr k \<Rightarrow> Some (k, en))
               else None)
      | other \<Rightarrow> None)"

text \<open>
  The entities of a page, keyed by id, in the page's order; and the union of the pages'
  entities, in which the later of two entities with one id wins.
\<close>

definition page_entities :: "json \<Rightarrow> (pykey \<times> json) list" where
  "page_entities page =
     (case page_items page of
        Inl e \<Rightarrow> []
      | Inr items \<Rightarrow>
          (case iter_items items of
             Inl e \<Rightarrow> []
           | Inr xs \<Rightarrow> List.map_filter (\<lambda>item. keyed (entity_of item)) xs))"

definition union_by_id :: "json list \<Rightarrow> (pykey \<Rightarrow> json option)" where
  "union_by_id pages = map_of (rev (concat (map page_entities pages)))"

text \<open>
  A page that is merged without an exception, a page that asks for a further request, and
  the staging mapping after a sequence of pages has been merged into an empty one.
\<close>

definition page_ok :: "json \<Rightarrow> bool" where
  "page_ok page = (fst (merge_page page []) = None)"

definition continues :: "json \<Rightarrow> bool" where
  "continues page = (case next_token page of Inl e \<Rightarrow> False | Inr nt \<Rightarrow> truthy nt)"

definition staged :: "json list \<Rightarrow> store" where
  "staged pages = foldl (\<lambda>st page. snd (merge_page page st)) [] pages"

text \<open>
  A response that ends a walk at the latest: a failed request, or a page that does not
  ask for a further one.
\<close>

definition final :: "response \<Rightarrow> bool" where
  "final r = (case r of Inl e \<Rightarrow> True | Inr page \<Rightarrow> \<not> continues page)"

text \<open>
  A tool the dispatcher knows: a row of the dynamic tool table, the tool that starts a
  flow, or one of the four listing tools.
\<close>

definition known_tool :: "env \<Rightarrow> state \<Rightarrow> string \<Rightarrow> bool" where
  "known_tool E s name =
     (map_of (workqueues s) (Some name) \<noteq> None \<or> name = ''start-automation-flow''
      \<or> map_of (mapping E) name \<noteq> None)"

text \<open>Inputs for the worked examples.\<close>

definition init_state :: state where
  "init_state = \<lparr>internal_resources = (\<lambda>k. []), workqueues = [], resources = (\<lambda>k. [])\<rparr>"

definition flow_a :: json where
  "flow_a = JObj [(''id'', JStr ''a''), (''name'', JStr ''Flow A'')]"

definition flow_b :: json where
  "flow_b = JObj [(''id'', JStr ''b''), (''name'', JStr ''Flow B'')]"

definition flow_a2 :: json where
  "flow_a2 = JObj [(''id'', JStr ''a''), (''name'', JStr ''Flow A, renamed'')]"

definition page_one :: json where
  "page_one = JObj [(''items'', JArr [flow_a, JObj [(''name'', JStr ''no id'')]]),
                    (''nextPageToken'', JStr ''t'')]"

definition page_two :: json where
  "page_two = JObj [(''value'', JArr [JObj [(''entity'', flow_a2)], flow_b])]"

definition demo_env :: env where
  "demo_env =
     \<lparr>BASE_URL = ''https://api'', get_access_token = Inr ''tok'', session = Some None,
      py_repr = (\<lambda>v. ''?''), tostring_b64 = (\<lambda>x. Inr ''eA==''),
      json_dumps = (\<lambda>ensure_ascii v. ''{}'')\<rparr>"

text \<open>
  A state in which an earlier retrieval left a session in the staging mapping and nothing
  was published.
\<close>

definition stale_state :: state where
  "stale_state =
     \<lparr>internal_resources = (\<lambda>k. [])(Sessions := [(KStr ''old'', JObj [(''id'', JStr ''old'')])]),
      workqueues = [], resources = (\<lambda>k. [])\<rparr>"

definition session_1 :: json where
  "session_1 = JObj [(''id'', JStr ''s1''), (''status'', JStr ''Running''),
                     (''requestedDate'', JStr ''2025-01-01'')]"

definition refreshed_state :: state where
  "refreshed_state =
     \<lparr>internal_resources = (\<lambda>k. [])(Sessions := [(KStr ''s1'', session_1)]),
      workqueues = [],
      resources = (\<lambda>k. [])(Sessions := [(KStr ''s1'', session_1)])\<rparr>"

definition retrieved_state :: state where
  "retrieved_state =
     \<lparr>internal_resources = (\<lambda>k. [])(Sessions := [(KStr ''s1'', session_1)]),
      workqueues = [], resources = (\<lambda>k. [])\<rparr>"

text \<open>
  A table of three rows, the second with a broken input shape; a parser that accepts the
  text \<^verbatim>\<open>{}\<close> only; and a constructor that asks for a name.
\<close>

definition row_invoice :: csv_row where
  "row_invoice = [(''name'', Some ''submit-invoice''), (''description'', Some ''Invoices''),
                  (''inputSchema'', Some ''{}''), (''workqueueid'', Some ''q1'')]"


definition row_claim :: csv_row where
  "row_claim = [(''name'', Some ''submit-claim''), (''description'', Some ''Claims''),
                (''inputSchema'', Some ''{}''), (''workqueueid'', Some ''q3''),
                (''priority'', Some ''50'')]"

definition row_abc :: csv_row where
  "row_abc = [(''name'', Some ''submit-abc''), (''description'', Some ''Abc''),
              (''inputSchema'', Some ''{}''), (''workqueueid'', Some ''q4''),
              (''priority'', Some ''abc'')]"

definition row_12x :: csv_row where
  "row_12x = [(''name'', Some ''submit-12x''), (''description'', Some ''12x''),
              (''inputSchema'', Some ''{}''), (''workqueueid'', Some ''q5''),
              (''priority'', Some ''12x'')]"



definition queue_state :: state where
  "queue_state =
     \<lparr>internal_resources = (\<lambda>k. []),
      workqueues = [(Some ''submit-invoice'', row_invoice), (Some ''submit-claim'', row_claim),
                    (Some ''submit-abc'', row_abc), (Some ''submit-12x'', row_12x)],
      resources = (\<lambda>k. [])\<rparr>"


section \<open>Properties of the walker\<close>

subsection \<open>Auxiliary facts\<close>


lemma map_of_dict_set: "map_of (dict_set k v ps) = (map_of ps)(k \<mapsto> v)"
  by (induction ps) (auto simp: fun_eq_iff)

lemma merge_items_fst: "fst (merge_items xs st) = fst (merge_items xs st')"
  by (induction xs arbitrary: st st') (auto split: sum.splits)

lemma merge_page_fst: "fst (merge_page p st) = fst (merge_page p st')"
  by (auto simp: merge_page_def merge_items_fst split: sum.splits)

lemma page_ok_merge: "page_ok p \<Longrightarrow> merge_page p st = (None, snd (merge_page p st))"
  using merge_page_fst[of p st "[]"] by (simp add: page_ok_def prod_eq_iff)

lemma merge_items_union:
  "merge_items xs st = (None, st') \<Longrightarrow>
   map_of st' = map_of st ++ map_of (rev (List.map_filter (\<lambda>item. keyed (entity_of item)) xs))"
proof (induction xs arbitrary: st)
  case Nil
  then show ?case by simp
next
  case (Cons item xs)
  from Cons.prems obtain kvs where item: "item = JObj kvs"
    by (cases item) auto
  define en where "en = entity_of item"
  have en_get: "py_get item ''entity'' item = Inr en"
    by (simp add: item en_def entity_of_def split: option.splits)
  from Cons.prems en_get obtain ekvs where en: "en = JObj ekvs"
    by (cases en) auto
  define i where "i = (case map_of ekvs ''id'' of Some v \<Rightarrow> v | None \<Rightarrow> JNull)"
  have id_get: "py_get en ''id'' JNull = Inr i" by (simp add: en i_def)
  show ?case
  proof (cases "truthy i")
    case False
    then have k: "keyed en = None" by (auto simp: keyed_def en i_def split: option.splits)
    from Cons.prems en_get id_get False have "merge_items xs st = (None, st')" by simp
    from Cons.IH[OF this] k show ?thesis by (simp add: en_def)
  next
    case True
    with Cons.prems en_get id_get obtain k where hk: "hash_key i = Inr k"
      by (cases "hash_key i") auto
    from True hk have kd: "keyed en = Some (k, en)"
      by (auto simp: keyed_def en i_def split: option.splits)
    from Cons.prems en_get id_get True hk have "merge_items xs (dict_set k en st) = (None, st')" by simp
    from Cons.IH[OF this] kd show ?thesis
      by (simp add: en_def[symmetric] map_of_dict_set fun_eq_iff map_add_def split: option.splits)
  qed
qed

lemma merge_page_union:
  assumes "merge_page p st = (None, st')"
  shows "map_of st' = map_of st ++ map_of (rev (page_entities p))"
proof (cases "page_items p")
  case (Inl e)
  with assms show ?thesis by (simp add: merge_page_def)
next
  case (Inr items)
  note pi = Inr
  show ?thesis
  proof (cases "iter_items items")
    case (Inl e)
    with assms pi show ?thesis by (simp add: merge_page_def)
  next
    case (Inr xs)
    with assms pi have "merge_items xs st = (None, st')" by (simp add: merge_page_def)
    from merge_items_union[OF this] pi Inr show ?thesis by (simp add: page_entities_def)
  qed
qed

lemma staged_union_gen:
  "\<forall>p\<in>set pages. page_ok p \<Longrightarrow>
   map_of (foldl (\<lambda>st page. snd (merge_page page st)) st pages)
     = map_of st ++ map_of (rev (concat (map page_entities pages)))"
proof (induction pages arbitrary: st)
  case Nil
  then show ?case by simp
next
  case (Cons p ps)
  define st1 where "st1 = snd (merge_page p st)"
  from Cons.prems have "page_ok p" by simp
  from page_ok_merge[OF this, of st] have "merge_page p st = (None, st1)" by (simp only: st1_def)
  from merge_page_union[OF this]
  have a: "map_of st1 = map_of st ++ map_of (rev (page_entities p))" .
  from Cons.prems have "\<forall>p\<in>set ps. page_ok p" by simp
  from Cons.IH[OF this, of st1]
  have b: "map_of (foldl (\<lambda>st page. snd (merge_page page st)) st1 ps)
        = map_of st1 ++ map_of (rev (concat (map page_entities ps)))" .
  have "map_of (rev (concat (map page_entities (p # ps))))
        = map_of (rev (page_entities p)) ++ map_of (rev (concat (map page_entities ps)))"
    by simp
  with a b show ?case by (simp add: st1_def)
qed

lemma staged_union: "\<forall>p\<in>set pages. page_ok p \<Longrightarrow> map_of (staged pages) = union_by_id pages"
  using staged_union_gen[of pages "[]"] by (simp add: staged_def union_by_id_def)


lemma retrieve_loop_page:
  assumes "merge_page response st = (None, st')" and "next_token response = Inr nt"
  shows "retrieve_loop token (Inr response # script) url params st sent =
           (if truthy nt then
              if is_http nt then
                retrieve_loop token script (the_str nt) [] st' (sent @ [GET url token params])
              else retrieve_loop token script url [(''pagetoken'', nt)] st'
                     (sent @ [GET url token params])
            else Some (None, st', sent @ [GET url token params]))"
  using assms by simp

lemma retrieve_loop_sent:
  "retrieve_loop token script url params st sent = Some (exc, st2, tr)
   \<Longrightarrow> \<exists>more. tr = sent @ GET url token params # more \<and> length more < length script"
proof (induction script arbitrary: url params st sent)
  case Nil
  then show ?case by simp
next
  case (Cons r script)
  show ?case
  proof (cases r)
    case (Inl e)
    with Cons.prems show ?thesis by auto
  next
    case (Inr response)
    note r = Inr
    obtain x st' where mp: "merge_page response st = (x, st')" by (cases "merge_page response st")
    show ?thesis
    proof (cases x)
      case (Some e)
      with Cons.prems r mp show ?thesis by auto
    next
      case None
      note xn = None
      show ?thesis
      proof (cases "next_token response")
        case (Inl e)
        with Cons.prems r mp xn show ?thesis by auto
      next
        case (Inr nt)
        note step = retrieve_loop_page[OF mp[unfolded xn] Inr, of token script url params sent]
        show ?thesis
        proof (cases "truthy nt")
          case False
          with Cons.prems r step show ?thesis by auto
        next
          case True
          show ?thesis
          proof (cases "is_http nt")
            case h: True
            from Cons.prems r step True h
            have "retrieve_loop token script (the_str nt) [] st' (sent @ [GET url token params])
                  = Some (exc, st2, tr)"
              by simp
            from Cons.IH[OF this] show ?thesis by auto
          next
            case h: False
            from Cons.prems r step True h
            have "retrieve_loop token script url [(''pagetoken'', nt)] st'
                    (sent @ [GET url token params]) = Some (exc, st2, tr)"
              by simp
            from Cons.IH[OF this] show ?thesis by auto
          qed
        qed
      qed
    qed
  qed
qed

lemma walk_pages:
  "\<forall>p\<in>set pages. page_ok p \<and> continues p \<Longrightarrow>
   \<exists>url' params' sent'.
     retrieve_loop token (map Inr pages @ script) url params st sent
       = retrieve_loop token script url' params'
           (foldl (\<lambda>st page. snd (merge_page page st)) st pages) sent'
     \<and> length sent' = length sent + length pages"
proof (induction pages arbitrary: url params st sent)
  case Nil
  have "retrieve_loop token (map Inr [] @ script) url params st sent
          = retrieve_loop token script url params
              (foldl (\<lambda>st page. snd (merge_page page st)) st []) sent
        \<and> length sent = length sent + length ([] :: json list)"
    by simp
  then show ?case by blast
next
  case (Cons p ps)
  define st1 where "st1 = snd (merge_page p st)"
  from Cons.prems have "page_ok p" by simp
  from page_ok_merge[OF this, of st] have mp: "merge_page p st = (None, st1)"
    by (simp only: st1_def)
  from Cons.prems have "continues p" by simp
  then obtain nt where nt: "next_token p = Inr nt" "truthy nt"
    by (auto simp: continues_def split: sum.splits)
  from Cons.prems have rest: "\<forall>p\<in>set ps. page_ok p \<and> continues p" by simp
  note step = retrieve_loop_page[OF mp nt(1), of token "map Inr ps @ script" url params sent]
  show ?case
  proof (cases "is_http nt")
    case True
    from Cons.IH[OF rest, of "the_str nt" "[]" st1 "sent @ [GET url token params]"]
    obtain url' params' sent' where
      "retrieve_loop token (map Inr ps @ script) (the_str nt) [] st1 (sent @ [GET url token params])
        = retrieve_loop token script url' params'
            (foldl (\<lambda>st page. snd (merge_page page st)) st1 ps) sent'"
      "length sent' = length (sent @ [GET url token params]) + length ps"
      by blast
    with step nt True show ?thesis by (auto simp: st1_def)
  next
    case False
    from Cons.IH[OF rest, of url "[(''pagetoken'', nt)]" st1 "sent @ [GET url token params]"]
    obtain url' params' sent' where
      "retrieve_loop token (map Inr ps @ script) url [(''pagetoken'', nt)] st1
          (sent @ [GET url token params])
        = retrieve_loop token script url' params'
            (foldl (\<lambda>st page. snd (merge_page page st)) st1 ps) sent'"
      "length sent' = length (sent @ [GET url token params]) + length ps"
      by blast
    with step nt False show ?thesis by (auto simp: st1_def)
  qed
qed

lemma walk_success:
  "retrieve_loop token (map Inr pages) url params st sent = Some (None, st', tr) \<Longrightarrow>
   length tr = length sent + length pages \<Longrightarrow>
   (\<forall>p\<in>set pages. page_ok p) \<and> st' = foldl (\<lambda>st page. snd (merge_page page st)) st pages"
proof (induction pages arbitrary: url params st sent)
  case Nil
  then show ?case by simp
next
  case (Cons p ps)
  obtain x st1 where mp: "merge_page p st = (x, st1)" by (cases "merge_page p st")
  from Cons.prems(1) mp have xn: "x = None" by (cases x) auto
  from mp xn have ok: "page_ok p"
    using merge_page_fst[of p "[]" st] by (simp add: page_ok_def)
  from Cons.prems(1) mp xn obtain nt where nt: "next_token p = Inr nt"
    by (cases "next_token p") auto
  note step = retrieve_loop_page[OF mp[unfolded xn] nt, of token "map Inr ps" url params sent]
  show ?case
  proof (cases "truthy nt")
    case False
    with Cons.prems step have "tr = sent @ [GET url token params]" "st' = st1" by auto
    with Cons.prems(2) have "ps = []" by simp
    with ok mp \<open>st' = st1\<close> show ?thesis by simp
  next
    case True
    define u' where "u' = (if is_http nt then the_str nt else url)"
    define p' where "p' = (if is_http nt then [] else [(''pagetoken'', nt)])"
    from Cons.prems(1) step True
    have "retrieve_loop token (map Inr ps) u' p' st1 (sent @ [GET url token params])
          = Some (None, st', tr)"
      by (auto simp: u'_def p'_def)
    from Cons.IH[OF this] Cons.prems(2)
    have "(\<forall>p\<in>set ps. page_ok p) \<and> st' = foldl (\<lambda>st page. snd (merge_page page st)) st1 ps"
      by simp
    with ok mp show ?thesis by simp
  qed
qed

lemma retrieve_entities_unfold:
  "retrieve_entities token url key args script s =
     (case retrieve_loop token script url
             (case map_of args ''environment'' of
                Some v \<Rightarrow> [(''environmentId.eq'', v)] | None \<Rightarrow> []) [] [] of
        None \<Rightarrow> None
      | Some (exc, st, sent) \<Rightarrow>
          Some (st,
                (case exc of
                   None \<Rightarrow> Successfully_retrieved (length st)
                 | Some e \<Rightarrow> Error_retrieving e),
                s\<lparr>internal_resources := (internal_resources s)(key := st)\<rparr>, sent))"
  by (simp add: retrieve_entities_def Let_def split: option.splits)

subsection \<open>A failing request\<close>

text \<open>
  Claim C2. When a request of the walk fails (the HTTP request itself, or the decoding of
  its body), \<^verbatim>\<open>retrieve_entities\<close> does not raise: it returns the staging mapping as it
  stood at the failure, which holds the entities merged from the pages fetched before it.
  The pages before the failing request were each merged without an exception and each
  asked for a further request; \<open>staged pages\<close> is the mapping they leave behind. The
  function returns it, writes the failure to its log, and the kind's staging mapping is
  that same mapping.
\<close>

theorem retrieve_entities_failure_keeps_store:
  assumes "\<forall>p\<in>set pages. page_ok p \<and> continues p"
  shows "\<exists>sent.
           retrieve_entities token url key args (map Inr pages @ Inl e # rest) s
             = Some (staged pages, Error_retrieving e,
                     s\<lparr>internal_resources := (internal_resources s)(key := staged pages)\<rparr>, sent)
           \<and> length sent = length pages + 1"
proof -
  define params where
    "params = (case map_of args ''environment'' of
                 Some v \<Rightarrow> [(''environmentId.eq'', v)] | None \<Rightarrow> [])"
  from walk_pages[OF assms, of token "Inl e # rest" url params "[]" "[]"]
  obtain url' params' sent' where
    w: "retrieve_loop token (map Inr pages @ Inl e # rest) url params [] []
          = retrieve_loop token (Inl e # rest) url' params' (staged pages) sent'"
    and l: "length sent' = length pages"
    by (auto simp: staged_def)
  have "retrieve_loop token (map Inr pages @ Inl e # rest) url params [] []
          = Some (Some e, staged pages, sent' @ [GET url' token params'])"
    by (simp add: w)
  then have "retrieve_entities token url key args (map Inr pages @ Inl e # rest) s
          = Some (staged pages, Error_retrieving e,
                  s\<lparr>internal_resources := (internal_resources s)(key := staged pages)\<rparr>,
                  sent' @ [GET url' token params'])"
    by (simp add: retrieve_entities_unfold params_def)
  with l show ?thesis by simp
qed

text \<open>One page with one flow, then a 503 on the second request.\<close>

theorem retrieve_entities_failure_keeps_store_witness:
  "\<exists>sent.
     retrieve_entities ''tok'' ''https://api/automation-flows'' Automationflows []
        [Inr (JObj [(''items'', JArr [flow_a]), (''nextPageToken'', JStr ''t'')]),
         Inl (OtherError ''503'')] init_state
       = Some ([(KStr ''a'', flow_a)], Error_retrieving (OtherError ''503''),
               init_state\<lparr>internal_resources :=
                  (internal_resources init_state)(Automationflows := [(KStr ''a'', flow_a)])\<rparr>, sent)
     \<and> length sent = 2"
proof -
  let ?p = "JObj [(''items'', JArr [flow_a]), (''nextPageToken'', JStr ''t'')]"
  have h: "\<forall>p\<in>set [?p]. page_ok p \<and> continues p"
    by (simp add: page_ok_def continues_def merge_page_def page_items_def next_token_def flow_a_def)
  have st: "staged [?p] = [(KStr ''a'', flow_a)]"
    by (simp add: staged_def merge_page_def page_items_def flow_a_def)
  from retrieve_entities_failure_keeps_store[OF h, of "''tok''" "''https://api/automation-flows''"
      Automationflows "[]" "OtherError ''503''" "[]" init_state]
  show ?thesis by (simp add: st numeral_2_eq_2)
qed

subsection \<open>A successful walk\<close>

text \<open>
  Claim C4. Every retrieval call first clears the kind's staging mapping, and when the
  call returns successfully the staging mapping is the union of every page's entities
  keyed by id: entities with a missing or falsy id are left out, and of two entities
  with one id the later wins. The script is the pages the walk consumed (one request per
  page). What the staging mapping held before the call (\<open>old\<close>) does not matter.
\<close>

theorem retrieve_entities_success_union:
  assumes "retrieve_entities token url key args (map Inr pages) s
             = Some (st, Successfully_retrieved n, s', sent)"
      and "length sent = length pages"
  shows "map_of st = union_by_id pages
         \<and> internal_resources s' key = st
         \<and> retrieve_entities token url key args (map Inr pages)
              (s\<lparr>internal_resources := (internal_resources s)(key := old)\<rparr>)
             = Some (st, Successfully_retrieved n, s', sent)"
proof -
  define params where
    "params = (case map_of args ''environment'' of
                 Some v \<Rightarrow> [(''environmentId.eq'', v)] | None \<Rightarrow> [])"
  from assms(1) obtain exc where
    loop: "retrieve_loop token (map Inr pages) url params [] [] = Some (exc, st, sent)"
    and lg: "(case exc of None \<Rightarrow> Successfully_retrieved (length st) | Some e \<Rightarrow> Error_retrieving e)
              = Successfully_retrieved n"
    and s': "s' = s\<lparr>internal_resources := (internal_resources s)(key := st)\<rparr>"
    unfolding retrieve_entities_unfold params_def
    by (cases "retrieve_loop token (map Inr pages) url
             (case map_of args ''environment'' of
                Some v \<Rightarrow> [(''environmentId.eq'', v)] | None \<Rightarrow> []) [] []") auto
  from lg have "exc = None" by (cases exc) auto
  with loop have "retrieve_loop token (map Inr pages) url params [] [] = Some (None, st, sent)"
    by simp
  from walk_success[OF this] assms(2)
  have ok: "\<forall>p\<in>set pages. page_ok p" and st: "st = staged pages"
    by (simp_all add: staged_def)
  from staged_union[OF ok] st have "map_of st = union_by_id pages" by simp
  moreover from s' have "internal_resources s' key = st" by simp
  moreover have "retrieve_entities token url key args (map Inr pages)
              (s\<lparr>internal_resources := (internal_resources s)(key := old)\<rparr>)
             = retrieve_entities token url key args (map Inr pages) s"
    by (simp add: retrieve_entities_unfold split: option.splits)
  ultimately show ?thesis using assms(1) by simp
qed

text \<open>
  Two pages: the first in the \<^verbatim>\<open>items\<close> convention with an entity that has no id, the
  second in the \<^verbatim>\<open>value\<close> convention with a wrapped entity that has the id of an earlier
  one.
\<close>

theorem retrieve_entities_success_union_witness:
  "retrieve_entities ''tok'' ''u'' Automationflows [] (map Inr [page_one, page_two]) init_state
     = Some ([(KStr ''a'', flow_a2), (KStr ''b'', flow_b)], Successfully_retrieved 2,
             init_state\<lparr>internal_resources := (internal_resources init_state)
                (Automationflows := [(KStr ''a'', flow_a2), (KStr ''b'', flow_b)])\<rparr>,
             [GET ''u'' ''tok'' [], GET ''u'' ''tok'' [(''pagetoken'', JStr ''t'')]])
   \<and> map_of [(KStr ''a'', flow_a2), (KStr ''b'', flow_b)] = union_by_id [page_one, page_two]"
proof -
  have run: "retrieve_entities ''tok'' ''u'' Automationflows [] (map Inr [page_one, page_two]) init_state
     = Some ([(KStr ''a'', flow_a2), (KStr ''b'', flow_b)], Successfully_retrieved 2,
             init_state\<lparr>internal_resources := (internal_resources init_state)
                (Automationflows := [(KStr ''a'', flow_a2), (KStr ''b'', flow_b)])\<rparr>,
             [GET ''u'' ''tok'' [], GET ''u'' ''tok'' [(''pagetoken'', JStr ''t'')]])"
    by (simp add: retrieve_entities_unfold merge_page_def page_items_def next_token_def
          page_one_def page_two_def flow_a_def flow_a2_def flow_b_def)
  have len: "length [GET ''u'' ''tok'' [], GET ''u'' ''tok'' [(''pagetoken'', JStr ''t'')]]
               = length [page_one, page_two]"
    by simp
  from retrieve_entities_success_union[OF run len] run show ?thesis by simp
qed

subsection \<open>Continuation\<close>

lemma next_token_continuation: "next_token (JObj kvs) = Inr (continuation kvs)"
  by (cases "map_of kvs ''nextPageToken''"; cases "map_of kvs ''@odata.nextLink''")
     (auto simp: next_token_def continuation_def)

text \<open>
  Claim C3, as amended. After a page that was merged without an exception, the walker
  takes the continuation value from \<^verbatim>\<open>nextPageToken\<close> or else \<^verbatim>\<open>@odata.nextLink\<close>, the
  first that holds a truthy value. When that value is a string starting with
  \<^verbatim>\<open>http\<close>, the next GET targets it with no query parameters; when it is any other truthy
  value, the next GET targets the URL of the request that returned the page, with the
  value as the only query parameter, \<^verbatim>\<open>pagetoken\<close>. The loop ends normally exactly when
  neither field holds a truthy value; the number of items of the page plays no part.
\<close>

theorem walker_continuation:
  assumes "merge_page (JObj kvs) st = (None, st')"
      and "retrieve_loop token (Inr (JObj kvs) # script) url params st sent = Some (exc, st2, tr)"
  shows "(truthy (continuation kvs) \<and> is_http (continuation kvs) \<longrightarrow>
            take (length sent + 2) tr
              = sent @ [GET url token params, GET (the_str (continuation kvs)) token []])
       \<and> (truthy (continuation kvs) \<and> \<not> is_http (continuation kvs) \<longrightarrow>
            take (length sent + 2) tr
              = sent @ [GET url token params,
                        GET url token [(''pagetoken'', continuation kvs)]])
       \<and> (\<not> truthy (continuation kvs) \<longrightarrow>
            tr = sent @ [GET url token params] \<and> exc = None \<and> st2 = st')"
proof -
  note step = retrieve_loop_page[OF assms(1) next_token_continuation,
      of token script url params sent]
  have a: "take (length sent + 2) tr
             = sent @ [GET url token params, GET (the_str (continuation kvs)) token []]"
    if "truthy (continuation kvs)" "is_http (continuation kvs)"
  proof -
    from assms(2) step that
    have "retrieve_loop token script (the_str (continuation kvs)) [] st'
            (sent @ [GET url token params]) = Some (exc, st2, tr)"
      by simp
    from retrieve_loop_sent[OF this] show ?thesis by auto
  qed
  have b: "take (length sent + 2) tr
             = sent @ [GET url token params, GET url token [(''pagetoken'', continuation kvs)]]"
    if "truthy (continuation kvs)" "\<not> is_http (continuation kvs)"
  proof -
    from assms(2) step that
    have "retrieve_loop token script url [(''pagetoken'', continuation kvs)] st'
            (sent @ [GET url token params]) = Some (exc, st2, tr)"
      by simp
    from retrieve_loop_sent[OF this] show ?thesis by auto
  qed
  have c: "tr = sent @ [GET url token params] \<and> exc = None \<and> st2 = st'"
    if "\<not> truthy (continuation kvs)"
    using assms(2) step that by auto
  from a b c show ?thesis by blast
qed

text \<open>
  A page without items and with an absolute link, a page without items and with a
  numeric token, and a last page.
\<close>

theorem walker_continuation_witness:
  "retrieve_loop ''tok''
         [Inr (JObj [(''items'', JArr []), (''@odata.nextLink'', JStr ''https://api/p2'')]),
          Inr (JObj [])] ''u'' [(''environmentId.eq'', JStr ''dev'')] [] []
       = Some (None, [],
               [GET ''u'' ''tok'' [(''environmentId.eq'', JStr ''dev'')],
                GET ''https://api/p2'' ''tok'' []])
   \<and> take 2 [GET ''u'' ''tok'' [(''environmentId.eq'', JStr ''dev'')], GET ''https://api/p2'' ''tok'' []]
       = [GET ''u'' ''tok'' [(''environmentId.eq'', JStr ''dev'')], GET ''https://api/p2'' ''tok'' []]
   \<and> retrieve_loop ''tok''
         [Inr (JObj [(''value'', JArr []), (''nextPageToken'', JInt 7)]), Inr (JObj [])]
         ''u'' [] [] []
       = Some (None, [], [GET ''u'' ''tok'' [], GET ''u'' ''tok'' [(''pagetoken'', JInt 7)]])
   \<and> take 2 [GET ''u'' ''tok'' [], GET ''u'' ''tok'' [(''pagetoken'', JInt 7)]]
       = [GET ''u'' ''tok'' [], GET ''u'' ''tok'' [(''pagetoken'', JInt 7)]]
   \<and> retrieve_loop ''tok'' [Inr (JObj [(''items'', JArr [flow_a])]), Inr (JObj [])] ''u'' [] [] []
       = Some (None, [(KStr ''a'', flow_a)], [GET ''u'' ''tok'' []])
   \<and> [GET ''u'' ''tok'' []] = [] @ [GET ''u'' ''tok'' []]"
proof -
  let ?k1 = "[(''items'', JArr []), (''@odata.nextLink'', JStr ''https://api/p2'')]"
  let ?k2 = "[(''value'', JArr []), (''nextPageToken'', JInt 7)]"
  let ?k3 = "[(''items'', JArr [flow_a])]"
  let ?p0 = "[(''environmentId.eq'', JStr ''dev'')]"
  have m1: "merge_page (JObj ?k1) [] = (None, [])"
    by (simp add: merge_page_def page_items_def)
  have r1: "retrieve_loop ''tok'' [Inr (JObj ?k1), Inr (JObj [])] ''u'' ?p0 [] []
       = Some (None, [], [GET ''u'' ''tok'' ?p0, GET ''https://api/p2'' ''tok'' []])"
    by (simp add: merge_page_def page_items_def next_token_def)
  have c1: "truthy (continuation ?k1) \<and> is_http (continuation ?k1)"
    by (simp add: continuation_def)
  have t1: "the_str (continuation ?k1) = ''https://api/p2''"
    by (simp add: continuation_def)
  from walker_continuation[OF m1 r1] c1 t1
  have w1: "take 2 [GET ''u'' ''tok'' ?p0, GET ''https://api/p2'' ''tok'' []]
       = [GET ''u'' ''tok'' ?p0, GET ''https://api/p2'' ''tok'' []]"
    by simp
  have m2: "merge_page (JObj ?k2) [] = (None, [])"
    by (simp add: merge_page_def page_items_def)
  have r2: "retrieve_loop ''tok'' [Inr (JObj ?k2), Inr (JObj [])] ''u'' [] [] []
       = Some (None, [], [GET ''u'' ''tok'' [], GET ''u'' ''tok'' [(''pagetoken'', JInt 7)]])"
    by (simp add: merge_page_def page_items_def next_token_def)
  have c2: "truthy (continuation ?k2) \<and> \<not> is_http (continuation ?k2)"
    by (simp add: continuation_def)
  have t2: "continuation ?k2 = JInt 7"
    by (simp add: continuation_def)
  from walker_continuation[OF m2 r2] c2 t2
  have w2: "take 2 [GET ''u'' ''tok'' [], GET ''u'' ''tok'' [(''pagetoken'', JInt 7)]]
       = [GET ''u'' ''tok'' [], GET ''u'' ''tok'' [(''pagetoken'', JInt 7)]]"
    by simp
  have m3: "merge_page (JObj ?k3) [] = (None, [(KStr ''a'', flow_a)])"
    by (simp add: merge_page_def page_items_def flow_a_def)
  have r3: "retrieve_loop ''tok'' [Inr (JObj ?k3), Inr (JObj [])] ''u'' [] [] []
       = Some (None, [(KStr ''a'', flow_a)], [GET ''u'' ''tok'' []])"
    by (simp add: merge_page_def page_items_def next_token_def flow_a_def)
  have c3: "\<not> truthy (continuation ?k3)"
    by (simp add: continuation_def)
  from walker_continuation[OF m3 r3] c3
  have w3: "[GET ''u'' ''tok'' []] = [] @ [GET ''u'' ''tok'' []]"
    by simp
  from r1 w1 r2 w2 r3 w3 show ?thesis by blast
qed

text \<open>
  Claim C3 as stated fails twice. A page whose \<^verbatim>\<open>nextPageToken\<close> field is present and
  empty ends the walk, although a continuation field is present. And a token that
  follows an absolute link is sent to the link's URL, not to the original one.
\<close>

theorem walker_continuation_counterexample:
  "retrieve_entities ''tok'' ''u'' Sessions []
      [Inr (JObj [(''items'', JArr []), (''nextPageToken'', JStr [])]), Inr (JObj [])] init_state
     = Some ([], Successfully_retrieved 0,
             init_state\<lparr>internal_resources := (internal_resources init_state)(Sessions := [])\<rparr>,
             [GET ''u'' ''tok'' []])
   \<and> retrieve_entities ''tok'' ''u'' Sessions []
      [Inr (JObj [(''@odata.nextLink'', JStr ''http://h/p2'')]),
       Inr (JObj [(''nextPageToken'', JStr ''t'')]),
       Inr (JObj [])] init_state
     = Some ([], Successfully_retrieved 0,
             init_state\<lparr>internal_resources := (internal_resources init_state)(Sessions := [])\<rparr>,
             [GET ''u'' ''tok'' [], GET ''http://h/p2'' ''tok'' [],
              GET ''http://h/p2'' ''tok'' [(''pagetoken'', JStr ''t'')]])"
  by (simp add: retrieve_entities_unfold merge_page_def page_items_def next_token_def)

subsection \<open>The item list of a page\<close>

text \<open>
  Claim C8, as amended. The walker selects the item list of a page by truthiness: a
  non-empty \<^verbatim>\<open>items\<close> array is used; when \<^verbatim>\<open>items\<close> is absent or falsy (an empty array
  included) the \<^verbatim>\<open>value\<close> array is used; when \<^verbatim>\<open>value\<close> is absent too, the page yields
  no entities.
\<close>

theorem item_list_truthy_first:
  "(\<forall>x xs. map_of kvs ''items'' = Some (JArr (x # xs)) \<longrightarrow>
       merge_page (JObj kvs) st = merge_items (x # xs) st)
   \<and> (\<forall>ys. absent_or_falsy (map_of kvs ''items'') \<and> map_of kvs ''value'' = Some (JArr ys) \<longrightarrow>
       merge_page (JObj kvs) st = merge_items ys st)
   \<and> (absent_or_falsy (map_of kvs ''items'') \<and> map_of kvs ''value'' = None \<longrightarrow>
       merge_page (JObj kvs) st = (None, st))"
  by (cases "map_of kvs ''items''") (auto simp: merge_page_def page_items_def)

text \<open>The three cases, and the second of them once more with \<^verbatim>\<open>items\<close> absent.\<close>

theorem item_list_truthy_first_witness:
  "merge_page (JObj [(''items'', JArr [flow_a]), (''value'', JArr [flow_b])]) []
      = merge_items [flow_a] []
   \<and> merge_page (JObj [(''items'', JArr []), (''value'', JArr [flow_b])]) []
      = merge_items [flow_b] []
   \<and> merge_page (JObj [(''value'', JArr [flow_b])]) [] = merge_items [flow_b] []
   \<and> merge_page (JObj [(''nextPageToken'', JStr ''t'')]) [] = (None, [])"
  using item_list_truthy_first[of "[(''items'', JArr [flow_a]), (''value'', JArr [flow_b])]" "[]"]
        item_list_truthy_first[of "[(''items'', JArr []), (''value'', JArr [flow_b])]" "[]"]
        item_list_truthy_first[of "[(''value'', JArr [flow_b])]" "[]"]
        item_list_truthy_first[of "[(''nextPageToken'', JStr ''t'')]" "[]"]
  by simp

text \<open>
  Claim C8 as stated fails: with an empty \<^verbatim>\<open>items\<close> array present, selection by
  presence gives no items, and the code merges the \<^verbatim>\<open>value\<close> array.
\<close>

theorem item_list_presence_counterexample:
  "spec_item_list [(''items'', JArr []), (''value'', JArr [flow_b])] = JArr []
   \<and> page_items (JObj [(''items'', JArr []), (''value'', JArr [flow_b])]) = Inr (JArr [flow_b])
   \<and> merge_page (JObj [(''items'', JArr []), (''value'', JArr [flow_b])]) []
        = (None, [(KStr ''b'', flow_b)])"
  by (simp add: spec_item_list_def page_items_def merge_page_def flow_b_def)

section \<open>Properties of the dispatcher\<close>

subsection \<open>Returning\<close>

lemma retrieve_loop_returns:
  "\<exists>r\<in>set script. final r \<Longrightarrow> retrieve_loop token script url params st sent \<noteq> None"
proof (induction script arbitrary: url params st sent)
  case Nil
  then show ?case by simp
next
  case (Cons r script)
  show ?case
  proof (cases r)
    case (Inl e)
    then show ?thesis by simp
  next
    case (Inr page)
    note r = Inr
    obtain x st' where mp: "merge_page page st = (x, st')" by (cases "merge_page page st")
    show ?thesis
    proof (cases x)
      case (Some e)
      with r mp show ?thesis by simp
    next
      case None
      note xn = None
      show ?thesis
      proof (cases "next_token page")
        case (Inl e)
        with r mp xn show ?thesis by simp
      next
        case (Inr nt)
        note step = retrieve_loop_page[OF mp[unfolded xn] Inr, of token script url params sent]
        show ?thesis
        proof (cases "truthy nt")
          case False
          with r step show ?thesis by simp
        next
          case True
          with Inr have "continues page" by (simp add: continues_def)
          with Cons.prems r have "\<exists>r\<in>set script. final r" by (auto simp: final_def)
          from Cons.IH[OF this] r step True show ?thesis by auto
        qed
      qed
    qed
  qed
qed

lemma retrieve_entities_returns:
  "\<exists>r\<in>set script. final r \<Longrightarrow> retrieve_entities token url key args script s \<noteq> None"
  using retrieve_loop_returns[of script token url _ "[]" "[]"]
  by (auto simp: retrieve_entities_unfold split: option.splits)

lemma caught_text:
  "caught prefix r = None \<or> (\<exists>texts s' sent. caught prefix r = Some (Inr texts, s', sent))"
  by (auto simp: caught_def split: option.splits sum.splits)

lemma caught_None: "caught prefix r = None \<longleftrightarrow> r = None"
  by (auto simp: caught_def split: option.splits sum.splits)

lemma try_work_queue_returns: "script \<noteq> [] \<Longrightarrow> try_work_queue E script config arguments s \<noteq> None"
  by (cases script) (auto simp: try_work_queue_def Let_def split: option.splits list.splits sum.splits)

lemma try_start_flow_returns: "script \<noteq> [] \<Longrightarrow> try_start_flow E script arguments s \<noteq> None"
  by (cases script) (auto simp: try_start_flow_def Let_def split: option.splits list.splits sum.splits)

lemma try_retrieve_returns:
  assumes "\<exists>r\<in>set script. final r"
  shows "try_retrieve E script url key flds arguments s \<noteq> None"
proof (cases "get_access_token E")
  case (Inl e)
  then show ?thesis by (simp add: try_retrieve_def)
next
  case (Inr token)
  show ?thesis
  proof (cases "token = []")
    case True
    with Inr show ?thesis by (simp add: try_retrieve_def)
  next
    case False
    define args where
      "args = (case arguments of None \<Rightarrow> [] | Some [] \<Rightarrow> [] | Some (a # as) \<Rightarrow> a # as)"
    from retrieve_entities_returns[OF assms, of token url key args s]
    obtain st lg s1 sent where
      "retrieve_entities token url key args script s = Some (st, lg, s1, sent)"
      by (cases "retrieve_entities token url key args script s") auto
    with Inr False show ?thesis
      by (simp add: try_retrieve_def args_def[symmetric] split: option.splits sum.splits)
  qed
qed


lemma show_nat_0: "show_nat 0 = ''0''"
  by code_simp

lemma show_nat_1: "show_nat (Suc 0) = ''1''"
  by code_simp

lemma mapping_prefix: "map_of (mapping E) name = Some v \<Longrightarrow> take 9 name = ''retrieve-''"
  by (auto simp: mapping_def split: if_splits)

subsection \<open>The retrieval branch\<close>

lemma handle_call_tool_retrieve:
  assumes "map_of (workqueues s) (Some name) = None"
      and "map_of (mapping E) name = Some (url, key, flds)"
  shows "handle_call_tool E script name arguments s
           = caught (''Error '' @ kind_name key @ '': '')
               (try_retrieve E script url key flds arguments s)"
proof -
  have "name \<noteq> ''start-automation-flow''"
    using assms(2) by (auto simp: mapping_def)
  with assms mapping_prefix[OF assms(2)] show ?thesis
    by (simp add: handle_call_tool_def)
qed

lemma try_retrieve_no_token:
  "get_access_token E = Inl e \<Longrightarrow>
   try_retrieve E script url key flds arguments s = Some (Inl e, s, [])"
  by (simp add: try_retrieve_def)

lemma try_retrieve_empty_token:
  "get_access_token E = Inr [] \<Longrightarrow>
   try_retrieve E script url key flds arguments s
     = Some (Inl (ValueError ''Invalid Client ID or Secret''), s, [])"
  by (simp add: try_retrieve_def)

lemma try_retrieve_run:
  assumes "get_access_token E = Inr token" and "token \<noteq> []"
  shows "try_retrieve E script url key flds arguments s =
     (case retrieve_entities token url key
             (case arguments of None \<Rightarrow> [] | Some a \<Rightarrow> a) script s of
        None \<Rightarrow> None
      | Some (updated_store, logged, s', sent) \<Rightarrow>
          (case notify E of
             Some e \<Rightarrow> Some (Inl e, s', sent)
           | None \<Rightarrow>
               (case format_resource_result updated_store flds of
                  Inl e \<Rightarrow> Some (Inl e, s', sent)
                | Inr result_text \<Rightarrow>
                    (case arguments of
                       None \<Rightarrow> Some (Inl (no_attribute JNull ''get''), s', sent)
                     | Some a \<Rightarrow>
                         if \<not> absent_or_falsy (map_of a ''set_resource'') then
                           Some (Inr [''Resource refreshed. Retrieved ''
                                      @ show_nat (length updated_store) @ '' ''
                                      @ kind_name key @ ''.'' @ [CHR 0x0A] @ result_text],
                                 s'\<lparr>resources := (resources s')
                                      (key := internal_resources s' key)\<rparr>, sent)
                         else
                           Some (Inr [''Retrieved ''
                                      @ show_nat (length updated_store) @ '' ''
                                      @ kind_name key @ ''.'' @ [CHR 0x0A] @ result_text],
                                 s', sent)))))"
proof -
  have args: "(case arguments of None \<Rightarrow> [] | Some [] \<Rightarrow> [] | Some (a # as) \<Rightarrow> a # as)
        = (case arguments of None \<Rightarrow> [] | Some a \<Rightarrow> a)"
    by (auto split: option.splits list.splits)
  have flag: "truthy (case map_of a ''set_resource'' of None \<Rightarrow> JNull | Some v \<Rightarrow> v)
        = (\<not> absent_or_falsy (map_of a ''set_resource''))" for a
    by (cases "map_of a ''set_resource''") auto
  show ?thesis
    unfolding try_retrieve_def Let_def args
    using assms
    by (auto simp: flag split: option.splits sum.splits)
qed

lemma retrieve_entities_resources:
  "retrieve_entities token url key args script s = Some (st, lg, s', sent) \<Longrightarrow>
   resources s' = resources s \<and> internal_resources s' key = st
   \<and> (\<forall>k. k \<noteq> key \<longrightarrow> internal_resources s' k = internal_resources s k)"
  by (auto simp: retrieve_entities_unfold split: option.splits)

text \<open>
  Claim C5, as amended. A retrieval call with a truthy \<^verbatim>\<open>set_resource\<close> that obtains a
  credential, delivers its notification and formats its listing makes the published
  mapping of the kind equal to the staging mapping as the call leaves it, leaves the
  published mappings of the other kinds alone, and returns the listing under the
  \<^verbatim>\<open>Resource refreshed.\<close> notice. A call whose \<^verbatim>\<open>set_resource\<close> is falsy or absent (the
  arguments being absent included) leaves every published mapping unchanged, and so does
  a call that obtains no credential, which changes nothing at all.
\<close>

theorem set_resource_publishes:
  assumes "map_of (workqueues s) (Some name) = None"
      and "map_of (mapping E) name = Some (url, key, flds)"
      and "handle_call_tool E script name arguments s = Some (r, s', sent)"
  shows "(\<forall>a token text.
            arguments = Some a \<and> \<not> absent_or_falsy (map_of a ''set_resource'')
            \<and> get_access_token E = Inr token \<and> token \<noteq> [] \<and> notify E = None
            \<and> format_resource_result (internal_resources s' key) flds = Inr text \<longrightarrow>
              resources s' key = internal_resources s' key
              \<and> (\<forall>k. k \<noteq> key \<longrightarrow> resources s' k = resources s k)
              \<and> r = Inr [''Resource refreshed. Retrieved ''
                         @ show_nat (length (internal_resources s' key)) @ '' ''
                         @ kind_name key @ ''.'' @ [CHR 0x0A] @ text])
       \<and> (arguments = None
            \<or> (\<exists>a. arguments = Some a \<and> absent_or_falsy (map_of a ''set_resource'')) \<longrightarrow>
              resources s' = resources s)
       \<and> ((\<exists>e. get_access_token E = Inl e) \<or> get_access_token E = Inr [] \<longrightarrow> s' = s)"
proof -
  note h = handle_call_tool_retrieve[OF assms(1,2), of script arguments]
  show ?thesis
  proof (cases "get_access_token E")
    case (Inl e)
    from assms(3) h try_retrieve_no_token[OF Inl, of script url key flds arguments s]
    have "s' = s" by (simp add: caught_def)
    with Inl show ?thesis by simp
  next
    case (Inr token)
    show ?thesis
    proof (cases "token = []")
      case True
      from assms(3) h try_retrieve_empty_token[of E script url key flds arguments s] Inr True
      have "s' = s" by (simp add: caught_def)
      with Inr True show ?thesis by simp
    next
      case False
      define args where "args = (case arguments of None \<Rightarrow> [] | Some a \<Rightarrow> a)"
      note run = try_retrieve_run[OF Inr False, of script url key flds arguments s,
          folded args_def]
      from assms(3) h run obtain st lg s1 sent1 where
        re: "retrieve_entities token url key args script s = Some (st, lg, s1, sent1)"
        by (cases "retrieve_entities token url key args script s") (auto simp: caught_def)
      from retrieve_entities_resources[OF re]
      have s1: "resources s1 = resources s" "internal_resources s1 key = st" by simp_all
      show ?thesis
      proof (cases "notify E")
        case (Some e)
        with assms(3) h run re have "s' = s1" by (simp add: caught_def)
        with s1 Some Inr False show ?thesis by simp
      next
        case None
        note nt = None
        show ?thesis
        proof (cases "format_resource_result st flds")
          case (Inl e)
          with assms(3) h run re nt have "s' = s1" by (simp add: caught_def)
          with s1 Inl Inr False show ?thesis by simp
        next
          case (Inr result_text)
          note fm = Inr
          show ?thesis
          proof (cases arguments)
            case None
            with assms(3) h run re nt fm have "s' = s1" by (simp add: caught_def)
            with s1 None \<open>get_access_token E = Inr token\<close> False show ?thesis by simp
          next
            case (Some a)
            show ?thesis
            proof (cases "absent_or_falsy (map_of a ''set_resource'')")
              case True
              with assms(3) h run re nt fm Some have "s' = s1" by (simp add: caught_def)
              with s1 Some True \<open>get_access_token E = Inr token\<close> False show ?thesis by simp
            next
              case flag: False
              with assms(3) h run re nt fm Some
              have s': "s' = s1\<lparr>resources := (resources s1)(key := internal_resources s1 key)\<rparr>"
                and r: "r = Inr [''Resource refreshed. Retrieved '' @ show_nat (length st) @ '' ''
                                 @ kind_name key @ ''.'' @ [CHR 0x0A] @ result_text]"
                by (simp_all add: caught_def)
              from s' s1 have "resources s' key = internal_resources s' key"
                "internal_resources s' key = st"
                "\<forall>k. k \<noteq> key \<longrightarrow> resources s' k = resources s k"
                by simp_all
              with r fm Some flag \<open>get_access_token E = Inr token\<close> False show ?thesis by simp
            qed
          qed
        qed
      qed
    qed
  qed
qed

lemmas call_defs =
  handle_call_tool_def mapping_def try_retrieve_def caught_def retrieve_entities_unfold
  demo_env_def notify_def format_resource_result_def str_join_def
  AUTOMATIONFLOW_URL_def ACTIVITYLOG_URL_def DIGITALWORKER_URL_def SESSION_URL_def
  merge_page_def page_items_def next_token_def

lemma run_refresh:
  "handle_call_tool demo_env [Inr (JObj [(''items'', JArr [session_1])])]
      ''retrieve-session-list'' (Some [(''set_resource'', JBool True)]) stale_state
     = Some (Inr [''Resource refreshed. Retrieved 1 sessions.'' @ [CHR 0x0A]
                  @ ''s1|Running|2025-01-01''],
             refreshed_state, [GET ''https://api/sessions'' ''tok'' []])"
  by (simp add: call_defs stale_state_def refreshed_state_def session_1_def show_nat_1)

lemma run_no_refresh:
  "handle_call_tool demo_env [Inr (JObj [(''items'', JArr [session_1])])]
      ''retrieve-session-list'' (Some [(''environment'', JStr ''dev'')]) stale_state
     = Some (Inr [''Retrieved 1 sessions.'' @ [CHR 0x0A] @ ''s1|Running|2025-01-01''],
             retrieved_state,
             [GET ''https://api/sessions'' ''tok'' [(''environmentId.eq'', JStr ''dev'')]])"
  by (simp add: call_defs stale_state_def retrieved_state_def session_1_def show_nat_1)

text \<open>
  Claim C5 as stated fails: with \<^verbatim>\<open>set_resource\<close> true and the credential exchange
  failing, the call ends with an error text, and the published mapping of the kind
  (empty) is not the staging mapping (one session).
\<close>

theorem set_resource_counterexample:
  "handle_call_tool (demo_env\<lparr>get_access_token := Inl (OtherError ''invalid_client'')\<rparr>)
      [Inr (JObj [(''items'', JArr [session_1])])]
      ''retrieve-session-list'' (Some [(''set_resource'', JBool True)]) stale_state
     = Some (Inr [''Error sessions: invalid_client''], stale_state, [])
   \<and> resources stale_state Sessions = []
   \<and> internal_resources stale_state Sessions = [(KStr ''old'', JObj [(''id'', JStr ''old'')])]"
  by (simp add: call_defs stale_state_def)

text \<open>The same listing, once with \<^verbatim>\<open>set_resource\<close> true and once without it.\<close>

theorem set_resource_publishes_witness:
  "handle_call_tool demo_env [Inr (JObj [(''items'', JArr [session_1])])]
      ''retrieve-session-list'' (Some [(''set_resource'', JBool True)]) stale_state
     = Some (Inr [''Resource refreshed. Retrieved 1 sessions.'' @ [CHR 0x0A]
                  @ ''s1|Running|2025-01-01''],
             refreshed_state, [GET ''https://api/sessions'' ''tok'' []])
   \<and> resources refreshed_state Sessions = internal_resources refreshed_state Sessions
   \<and> handle_call_tool demo_env [Inr (JObj [(''items'', JArr [session_1])])]
      ''retrieve-session-list'' (Some [(''environment'', JStr ''dev'')]) stale_state
     = Some (Inr [''Retrieved 1 sessions.'' @ [CHR 0x0A] @ ''s1|Running|2025-01-01''],
             retrieved_state,
             [GET ''https://api/sessions'' ''tok'' [(''environmentId.eq'', JStr ''dev'')]])
   \<and> resources retrieved_state = resources stale_state"
proof -
  have wq: "map_of (workqueues stale_state) (Some ''retrieve-session-list'') = None"
    by (simp add: stale_state_def)
  have mp: "map_of (mapping demo_env) ''retrieve-session-list''
              = Some (SESSION_URL demo_env, Sessions, [''status'', ''requestedDate''])"
    by (simp add: mapping_def)
  have hyps: "Some [(''set_resource'', JBool True)] = Some [(''set_resource'', JBool True)]
      \<and> \<not> absent_or_falsy (map_of [(''set_resource'', JBool True)] ''set_resource'')
      \<and> get_access_token demo_env = Inr ''tok'' \<and> ''tok'' \<noteq> [] \<and> notify demo_env = None
      \<and> format_resource_result (internal_resources refreshed_state Sessions)
            [''status'', ''requestedDate''] = Inr ''s1|Running|2025-01-01''"
    by (simp add: demo_env_def notify_def refreshed_state_def session_1_def
          format_resource_result_def str_join_def)
  from set_resource_publishes[OF wq mp run_refresh] hyps
  have a: "resources refreshed_state Sessions = internal_resources refreshed_state Sessions"
    by blast
  have "absent_or_falsy (map_of [(''environment'', JStr ''dev'')] ''set_resource'')"
    by simp
  with set_resource_publishes[OF wq mp run_no_refresh]
  have b: "resources retrieved_state = resources stale_state"
    by blast
  from a b run_refresh run_no_refresh show ?thesis by simp
qed

lemma caught_Inl:
  "caught prefix (Some (Inl e, s, sent)) = Some (Inr [prefix @ str_exn e], s, sent)"
  by (simp add: caught_def)

lemma try_retrieve_None_args:
  assumes "try_retrieve E script url key flds None s = Some (x, s', sent)"
  shows "(\<exists>e. x = Inl e) \<and> resources s' = resources s"
proof (cases "get_access_token E")
  case (Inl e)
  from assms try_retrieve_no_token[OF Inl, of script url key flds None s]
  show ?thesis by auto
next
  case (Inr token)
  show ?thesis
  proof (cases "token = []")
    case True
    from assms try_retrieve_empty_token[of E script url key flds None s] Inr True
    show ?thesis by auto
  next
    case False
    note tr = try_retrieve_run[OF Inr False, of script url key flds None s]
    from assms tr obtain st lg s1 sent1 where
      re: "retrieve_entities token url key [] script s = Some (st, lg, s1, sent1)"
      by (cases "retrieve_entities token url key [] script s") auto
    from retrieve_entities_resources[OF re] have "resources s1 = resources s" by simp
    with assms tr re show ?thesis
      by (auto split: option.splits sum.splits)
  qed
qed

text \<open>
  Claim C10. A listing tool called with the arguments absent (\<^verbatim>\<open>None\<close>) returns an error
  text, never the listing, and leaves the published mappings unchanged. Once a credential
  is obtained and the walk returns, the staging mapping of the kind is the store the walk
  built from the empty store with no query parameters, and when the notification and the
  formatting succeed the error is the \<^verbatim>\<open>AttributeError\<close> of reading \<^verbatim>\<open>get\<close> from
  \<^verbatim>\<open>None\<close>.
\<close>

theorem retrieve_without_arguments:
  assumes "map_of (workqueues s) (Some name) = None"
      and "map_of (mapping E) name = Some (url, key, flds)"
  shows "(\<forall>r s' sent. handle_call_tool E script name None s = Some (r, s', sent) \<longrightarrow>
            (\<exists>e. r = Inr [''Error '' @ kind_name key @ '': '' @ str_exn e])
            \<and> resources s' = resources s)
       \<and> (\<forall>token exc st sent.
            get_access_token E = Inr token \<and> token \<noteq> []
            \<and> retrieve_loop token script url [] [] [] = Some (exc, st, sent) \<longrightarrow>
            (\<exists>e s'. handle_call_tool E script name None s
                       = Some (Inr [''Error '' @ kind_name key @ '': '' @ str_exn e], s', sent)
                \<and> internal_resources s' key = st \<and> resources s' = resources s
                \<and> (notify E = None \<and> (\<exists>text. format_resource_result st flds = Inr text) \<longrightarrow>
                     e = no_attribute JNull ''get'')))"
proof -
  note h = handle_call_tool_retrieve[OF assms(1,2), of script None]
  have first: "(\<exists>e. r = Inr [''Error '' @ kind_name key @ '': '' @ str_exn e])
            \<and> resources s' = resources s"
    if run: "handle_call_tool E script name None s = Some (r, s', sent)" for r s' sent
  proof -
    from run h obtain x where
      tr: "try_retrieve E script url key flds None s = Some (x, s', sent)"
      by (cases "try_retrieve E script url key flds None s")
         (auto simp: caught_def split: sum.splits)
    from try_retrieve_None_args[OF tr] obtain e where x: "x = Inl e"
      and rs: "resources s' = resources s" by blast
    from run h tr x have "r = Inr [''Error '' @ kind_name key @ '': '' @ str_exn e]"
      by (simp add: caught_Inl)
    with rs show ?thesis by blast
  qed
  have second: "\<exists>e s'. handle_call_tool E script name None s
                       = Some (Inr [''Error '' @ kind_name key @ '': '' @ str_exn e], s', sent)
                \<and> internal_resources s' key = st \<and> resources s' = resources s
                \<and> (notify E = None \<and> (\<exists>text. format_resource_result st flds = Inr text) \<longrightarrow>
                     e = no_attribute JNull ''get'')"
    if tk: "get_access_token E = Inr token" "token \<noteq> []"
      and loop: "retrieve_loop token script url [] [] [] = Some (exc, st, sent)"
    for token exc st sent
  proof -
    define lg where "lg = (case exc of None \<Rightarrow> Successfully_retrieved (length st)
                           | Some e \<Rightarrow> Error_retrieving e)"
    define s1 where "s1 = s\<lparr>internal_resources := (internal_resources s)(key := st)\<rparr>"
    from loop have re: "retrieve_entities token url key [] script s = Some (st, lg, s1, sent)"
      by (simp add: retrieve_entities_unfold lg_def s1_def)
    have s1: "internal_resources s1 key = st" "resources s1 = resources s"
      by (simp_all add: s1_def)
    note tr = try_retrieve_run[OF tk, of script url key flds None s]
    show ?thesis
    proof (cases "notify E")
      case (Some e)
      with h tr re
      have "handle_call_tool E script name None s
               = Some (Inr [''Error '' @ kind_name key @ '': '' @ str_exn e], s1, sent)"
        by (simp add: caught_Inl)
      with s1 Some show ?thesis by (intro exI[of _ e] exI[of _ s1]) simp
    next
      case None
      note nt = None
      show ?thesis
      proof (cases "format_resource_result st flds")
        case (Inl e)
        with h tr re nt
        have "handle_call_tool E script name None s
               = Some (Inr [''Error '' @ kind_name key @ '': '' @ str_exn e], s1, sent)"
          by (simp add: caught_Inl)
        with s1 Inl show ?thesis by (intro exI[of _ e] exI[of _ s1]) simp
      next
        case (Inr rendered)
        with h tr re nt
        have "handle_call_tool E script name None s
               = Some (Inr [''Error '' @ kind_name key @ '': ''
                            @ str_exn (no_attribute JNull ''get'')], s1, sent)"
          by (simp add: caught_Inl)
        with s1 show ?thesis
          by (intro exI[of _ "no_attribute JNull ''get''"] exI[of _ s1]) simp
      qed
    qed
  qed
  from first second show ?thesis by blast
qed

text \<open>A state with a stale session; the call replaces it in staging and reports the error.\<close>

theorem retrieve_without_arguments_witness:
  "handle_call_tool demo_env [Inr (JObj [(''items'', JArr [session_1])])]
      ''retrieve-session-list'' None stale_state
     = Some (Inr [''Error sessions: '' @ str_exn (no_attribute JNull ''get'')],
             retrieved_state, [GET ''https://api/sessions'' ''tok'' []])
   \<and> internal_resources retrieved_state Sessions = [(KStr ''s1'', session_1)]
   \<and> resources retrieved_state = resources stale_state"
proof -
  have wq: "map_of (workqueues stale_state) (Some ''retrieve-session-list'') = None"
    by (simp add: stale_state_def)
  have mp: "map_of (mapping demo_env) ''retrieve-session-list''
              = Some (SESSION_URL demo_env, Sessions, [''status'', ''requestedDate''])"
    by (simp add: mapping_def)
  have run: "handle_call_tool demo_env [Inr (JObj [(''items'', JArr [session_1])])]
      ''retrieve-session-list'' None stale_state
     = Some (Inr [''Error sessions: '' @ str_exn (no_attribute JNull ''get'')],
             retrieved_state, [GET ''https://api/sessions'' ''tok'' []])"
    by (simp add: call_defs stale_state_def retrieved_state_def session_1_def)
  have hyps: "get_access_token demo_env = Inr ''tok'' \<and> ''tok'' \<noteq> []
     \<and> retrieve_loop ''tok'' [Inr (JObj [(''items'', JArr [session_1])])]
          (SESSION_URL demo_env) [] [] []
        = Some (None, [(KStr ''s1'', session_1)], [GET ''https://api/sessions'' ''tok'' []])"
    by (simp add: call_defs session_1_def)
  from retrieve_without_arguments[OF wq mp,
      of "[Inr (JObj [(''items'', JArr [session_1])])]"] hyps
  obtain e s' where
    "handle_call_tool demo_env [Inr (JObj [(''items'', JArr [session_1])])]
        ''retrieve-session-list'' None stale_state
       = Some (Inr [''Error '' @ kind_name Sessions @ '': '' @ str_exn e], s',
               [GET ''https://api/sessions'' ''tok'' []])"
    "internal_resources s' Sessions = [(KStr ''s1'', session_1)]"
    "resources s' = resources stale_state"
    by blast
  with run show ?thesis by simp
qed

subsection \<open>Work-queue submissions\<close>

lemma py_int_100: "py_int repr ''100'' = Inr 100"
  by (simp add: py_int_def int_strip_def int_space_def int_unsigned_def is_digit_def digit_val_def)

lemma py_int_50: "py_int repr ''50'' = Inr 50"
  by (simp add: py_int_def int_strip_def int_space_def int_unsigned_def is_digit_def digit_val_def)

lemma py_int_abc: "py_int repr ''abc'' = Inl (invalid_literal repr ''abc'')"
  by (simp add: py_int_def int_strip_def int_space_def int_unsigned_def is_digit_def digit_val_def)









lemma handle_call_tool_work_queue:
  "map_of (workqueues s) (Some name) = Some config \<Longrightarrow>
   handle_call_tool E script name arguments s
     = caught ''Error creating work queue item: '' (try_work_queue E script config arguments s)"
  by (simp add: handle_call_tool_def)


lemma int_digits_bad:
  "c \<in> set cs \<Longrightarrow> \<not> is_digit c \<Longrightarrow> c \<noteq> CHR ''_'' \<Longrightarrow> int_digits cs acc u = None"
  by (induction cs arbitrary: acc u) auto

lemma int_unsigned_bad:
  "c \<in> set cs \<Longrightarrow> \<not> is_digit c \<Longrightarrow> c \<noteq> CHR ''_'' \<Longrightarrow> int_unsigned cs = None"
  by (cases cs) (auto simp: int_unsigned_def int_digits_bad)

lemma int_strip_keeps: "c \<in> set s \<Longrightarrow> \<not> int_space c \<Longrightarrow> c \<in> set (int_strip s)"
proof -
  have keep: "c \<in> set (dropWhile int_space xs)" if "c \<in> set xs" "\<not> int_space c" for xs
    using that by (induction xs) auto
  assume a: "c \<in> set s" "\<not> int_space c"
  from keep[OF a] have "c \<in> set (rev (dropWhile int_space s))" by simp
  from keep[OF this a(2)] show ?thesis by (simp add: int_strip_def)
qed

lemma py_int_bad_char:
  assumes "c \<in> set s" and "\<not> is_digit c" and "c \<noteq> CHR ''_''"
      and "c \<noteq> CHR ''+''" and "c \<noteq> CHR ''-''" and "\<not> int_space c"
  shows "py_int repr s = Inl (invalid_literal repr s)"
proof -
  from int_strip_keeps[OF assms(1,6)] have c: "c \<in> set (int_strip s)" .
  then obtain d ds where s': "int_strip s = d # ds" by (cases "int_strip s") auto
  show ?thesis
  proof (cases "d = CHR ''-'' \<or> d = CHR ''+''")
    case True
    with c s' assms(4,5) have "c \<in> set ds" by auto
    from int_unsigned_bad[OF this assms(2,3)] True s' show ?thesis
      by (auto simp: py_int_def)
  next
    case False
    from c s' int_unsigned_bad[OF _ assms(2,3), of "d # ds"]
    have "int_unsigned (d # ds) = None" by simp
    with False s' show ?thesis by (simp add: py_int_def)
  qed
qed

lemma py_int_12x: "py_int repr ''12x'' = Inl (invalid_literal repr ''12x'')"
  by (rule py_int_bad_char[of "CHR ''x''"]) (simp_all add: is_digit_def int_space_def)

lemma py_int_separator: "py_int repr [CHR 0x1C, CHR ''5''] = Inl (invalid_literal repr [CHR 0x1C, CHR ''5''])"
  by (rule py_int_bad_char[of "CHR 0x1C"]) (simp_all add: is_digit_def int_space_def)






lemmas queue_defs =
  handle_call_tool_def try_work_queue_def caught_def payload_def config_priority_def
  config_get_def config_tags_def create_collection_xml_def POST_def demo_env_def
  queue_state_def row_invoice_def row_claim_def row_abc_def strip_def is_space_def
  py_int_100 py_int_50 py_int_abc invalid_literal_def



lemma run_12x:
  "handle_call_tool demo_env [Inr (JObj [(''itemId'', JStr ''i-4'')])] ''submit-12x''
      (Some [(''amount'', JStr ''10'')]) queue_state
     = Some (Inr [''Error creating work queue item: ''
                  @ str_exn (invalid_literal (py_repr demo_env) ''12x'')], queue_state, [])"
  by (simp add: queue_defs row_12x_def py_int_12x)


subsection \<open>The boundary of the dispatcher\<close>

lemma try_work_queue_one_text:
  "try_work_queue E script config arguments s = Some (Inr texts, s', sent) \<Longrightarrow>
   \<exists>t. texts = [t]"
  by (auto simp: try_work_queue_def Let_def
      split: option.splits list.splits sum.splits if_splits)

lemma try_start_flow_one_text:
  "try_start_flow E script arguments s = Some (Inr texts, s', sent) \<Longrightarrow> \<exists>t. texts = [t]"
  by (auto simp: try_start_flow_def Let_def
      split: option.splits list.splits sum.splits if_splits)

lemma try_retrieve_one_text:
  assumes "try_retrieve E script url key flds arguments s = Some (Inr texts, s', sent)"
  shows "\<exists>t. texts = [t]"
proof (cases "get_access_token E")
  case (Inl e)
  with assms show ?thesis by (simp add: try_retrieve_def)
next
  case (Inr token)
  show ?thesis
  proof (cases "token = []")
    case True
    with assms Inr show ?thesis by (simp add: try_retrieve_def)
  next
    case False
    from assms show ?thesis
      unfolding try_retrieve_run[OF Inr False]
      by (auto split: option.splits sum.splits if_splits)
  qed
qed

lemma caught_one_text:
  assumes "\<And>texts s' sent. r = Some (Inr texts, s', sent) \<Longrightarrow> \<exists>t. texts = [t]"
  shows "caught prefix r = None \<or> (\<exists>t s' sent. caught prefix r = Some (Inr [t], s', sent))"
proof (cases r)
  case None
  then show ?thesis by (simp add: caught_def)
next
  case (Some x)
  obtain y s' sent where x: "x = (y, s', sent)" by (cases x)
  show ?thesis
  proof (cases y)
    case (Inl e)
    with Some x show ?thesis by (simp add: caught_Inl)
  next
    case (Inr texts)
    with Some x assms[of texts s' sent] obtain t where "texts = [t]" by blast
    with Some x Inr show ?thesis by (simp add: caught_def)
  qed
qed

lemma handle_call_tool_start_flow:
  "map_of (workqueues s) (Some name) = None \<Longrightarrow> name = ''start-automation-flow'' \<Longrightarrow>
   handle_call_tool E script name arguments s
     = caught ''Error starting automation flow: '' (try_start_flow E script arguments s)"
  by (simp add: handle_call_tool_def)

lemma known_tool_one_text:
  assumes "known_tool E s name"
  shows "(handle_call_tool E script name arguments s = None
          \<or> (\<exists>t s' sent. handle_call_tool E script name arguments s = Some (Inr [t], s', sent)))
         \<and> ((\<exists>r\<in>set script. final r) \<longrightarrow> handle_call_tool E script name arguments s \<noteq> None)"
proof (cases "map_of (workqueues s) (Some name)")
  case (Some config)
  note h = handle_call_tool_work_queue[OF Some, where E=E and script=script
      and arguments=arguments]
  have "(\<exists>r\<in>set script. final r) \<longrightarrow> script \<noteq> []" by auto
  with h show ?thesis
    using caught_one_text[of "try_work_queue E script config arguments s"
            "''Error creating work queue item: ''", OF try_work_queue_one_text]
          try_work_queue_returns[of script E config arguments s]
    by (auto simp: caught_None)
next
  case None
  note wq = None
  show ?thesis
  proof (cases "name = ''start-automation-flow''")
    case True
    note h = handle_call_tool_start_flow[OF wq True, of E script arguments]
    have "(\<exists>r\<in>set script. final r) \<longrightarrow> script \<noteq> []" by auto
    with h show ?thesis
      using caught_one_text[of "try_start_flow E script arguments s"
              "''Error starting automation flow: ''", OF try_start_flow_one_text]
            try_start_flow_returns[of script E arguments s]
      by (auto simp: caught_None)
  next
    case False
    with assms wq obtain url key flds where
      mp: "map_of (mapping E) name = Some (url, key, flds)"
      by (auto simp: known_tool_def)
    note h = handle_call_tool_retrieve[OF wq mp, of script arguments]
    from h show ?thesis
      using caught_one_text[of "try_retrieve E script url key flds arguments s"
              "''Error '' @ kind_name key @ '': ''", OF try_retrieve_one_text]
            try_retrieve_returns[of script E url key flds arguments s]
      by (auto simp: caught_None)
  qed
qed

lemma unknown_tool_raises:
  assumes "\<not> known_tool E s name"
  shows "handle_call_tool E script name arguments s
           = Some (Inl (ValueError (''Unknown tool: '' @ name)), s, [])"
  using assms
  by (cases "map_of (mapping E) name") (auto simp: known_tool_def handle_call_tool_def)

lemma try_work_queue_missing:
  "arguments = None \<or> arguments = Some [] \<Longrightarrow>
   try_work_queue E script config arguments s
     = Some (Inl (ValueError ''Missing arguments''), s, [])"
  by (auto simp: try_work_queue_def)

lemma try_work_queue_no_token:
  "arguments = Some (a # as) \<Longrightarrow> get_access_token E = Inl e \<Longrightarrow>
   try_work_queue E script config arguments s = Some (Inl e, s, [])"
  by (simp add: try_work_queue_def)

lemma try_start_flow_missing:
  "arguments = None \<or> arguments = Some [] \<Longrightarrow>
   try_start_flow E script arguments s = Some (Inl (ValueError ''Missing arguments''), s, [])"
  by (auto simp: try_start_flow_def)

lemma try_start_flow_no_token:
  "arguments = Some (a # as) \<Longrightarrow> get_access_token E = Inl e \<Longrightarrow>
   try_start_flow E script arguments s = Some (Inl e, s, [])"
  by (simp add: try_start_flow_def)

lemma try_start_flow_request_fails:
  "arguments = Some (a # as) \<Longrightarrow> get_access_token E = Inr token \<Longrightarrow> token \<noteq> [] \<Longrightarrow>
   map_of (a # as) ''automation_flow_id'' = Some flow_id \<Longrightarrow> script = Inl e # rest \<Longrightarrow>
   try_start_flow E script arguments s
     = Some (Inl e, s,
             [POST (AUTOMATIONFLOW_URL E @ ''/'' @ py_str E flow_id @ ''/executions'') token None])"
  by (simp add: try_start_flow_def)

text \<open>
  Claim C1, as amended. For a tool the dispatcher knows (a row of the dynamic tool table,
  \<^verbatim>\<open>start-automation-flow\<close>, or one of the four listing tools) \<^verbatim>\<open>handle_call_tool\<close>
  never raises: whenever it returns, it returns one text, and it does return as soon as
  the remote side's answers contain a failure or a page without continuation. Every
  exception that leaves the body of a branch is rendered as that branch's error text: the
  branch's prefix followed by the exception's message, with the stores and the requests as
  the body left them. So are, in particular, missing arguments, a failing credential
  exchange and a failing request. For any other name, a \<^verbatim>\<open>retrieve-\<close> name outside the
  table included, the handler raises \<^verbatim>\<open>ValueError\<close> with the message \<^verbatim>\<open>Unknown tool: \<close>
  followed by the name, changing nothing and sending nothing.
\<close>

theorem handle_call_tool_boundary:
  "(known_tool E s name \<longrightarrow>
      (handle_call_tool E script name arguments s = None
       \<or> (\<exists>t s' sent. handle_call_tool E script name arguments s = Some (Inr [t], s', sent)))
      \<and> ((\<exists>r\<in>set script. final r) \<longrightarrow> handle_call_tool E script name arguments s \<noteq> None))
   \<and> (\<forall>config e s' sent.
        map_of (workqueues s) (Some name) = Some config
        \<and> try_work_queue E script config arguments s = Some (Inl e, s', sent) \<longrightarrow>
        handle_call_tool E script name arguments s
          = Some (Inr [''Error creating work queue item: '' @ str_exn e], s', sent))
   \<and> (\<forall>e s' sent.
        map_of (workqueues s) (Some name) = None \<and> name = ''start-automation-flow''
        \<and> try_start_flow E script arguments s = Some (Inl e, s', sent) \<longrightarrow>
        handle_call_tool E script name arguments s
          = Some (Inr [''Error starting automation flow: '' @ str_exn e], s', sent))
   \<and> (\<forall>url key flds e s' sent.
        map_of (workqueues s) (Some name) = None
        \<and> map_of (mapping E) name = Some (url, key, flds)
        \<and> try_retrieve E script url key flds arguments s = Some (Inl e, s', sent) \<longrightarrow>
        handle_call_tool E script name arguments s
          = Some (Inr [''Error '' @ kind_name key @ '': '' @ str_exn e], s', sent))
   \<and> (\<forall>config. map_of (workqueues s) (Some name) = Some config
        \<and> (arguments = None \<or> arguments = Some []) \<longrightarrow>
        handle_call_tool E script name arguments s
          = Some (Inr [''Error creating work queue item: Missing arguments''], s, []))
   \<and> (\<forall>config a as e. map_of (workqueues s) (Some name) = Some config
        \<and> arguments = Some (a # as) \<and> get_access_token E = Inl e \<longrightarrow>
        handle_call_tool E script name arguments s
          = Some (Inr [''Error creating work queue item: '' @ str_exn e], s, []))
   \<and> (map_of (workqueues s) (Some name) = None \<and> name = ''start-automation-flow''
        \<and> (arguments = None \<or> arguments = Some []) \<longrightarrow>
        handle_call_tool E script name arguments s
          = Some (Inr [''Error starting automation flow: Missing arguments''], s, []))
   \<and> (\<forall>a as token flow_id e rest.
        map_of (workqueues s) (Some name) = None \<and> name = ''start-automation-flow''
        \<and> arguments = Some (a # as) \<and> get_access_token E = Inr token \<and> token \<noteq> []
        \<and> map_of (a # as) ''automation_flow_id'' = Some flow_id \<and> script = Inl e # rest \<longrightarrow>
        handle_call_tool E script name arguments s
          = Some (Inr [''Error starting automation flow: '' @ str_exn e], s,
                  [POST (AUTOMATIONFLOW_URL E @ ''/'' @ py_str E flow_id @ ''/executions'')
                     token None]))
   \<and> (\<forall>url key flds e.
        map_of (workqueues s) (Some name) = None
        \<and> map_of (mapping E) name = Some (url, key, flds) \<and> get_access_token E = Inl e \<longrightarrow>
        handle_call_tool E script name arguments s
          = Some (Inr [''Error '' @ kind_name key @ '': '' @ str_exn e], s, []))
   \<and> (\<not> known_tool E s name \<longrightarrow>
        handle_call_tool E script name arguments s
          = Some (Inl (ValueError (''Unknown tool: '' @ name)), s, []))"
proof -
  have wq: "handle_call_tool E script name arguments s
          = Some (Inr [''Error creating work queue item: '' @ str_exn e], s', sent)"
    if "map_of (workqueues s) (Some name) = Some config"
       "try_work_queue E script config arguments s = Some (Inl e, s', sent)"
    for config e s' sent
    using handle_call_tool_work_queue[OF that(1), where E=E and script=script
        and arguments=arguments] that(2)
    by (simp add: caught_Inl)
  have sf: "handle_call_tool E script name arguments s
          = Some (Inr [''Error starting automation flow: '' @ str_exn e], s', sent)"
    if "map_of (workqueues s) (Some name) = None" "name = ''start-automation-flow''"
       "try_start_flow E script arguments s = Some (Inl e, s', sent)"
    for e s' sent
    using handle_call_tool_start_flow[OF that(1,2), of E script arguments] that(3)
    by (simp add: caught_Inl)
  have rt: "handle_call_tool E script name arguments s
          = Some (Inr [''Error '' @ kind_name key @ '': '' @ str_exn e], s', sent)"
    if "map_of (workqueues s) (Some name) = None"
       "map_of (mapping E) name = Some (url, key, flds)"
       "try_retrieve E script url key flds arguments s = Some (Inl e, s', sent)"
    for url key flds e s' sent
    using handle_call_tool_retrieve[OF that(1,2), of script arguments] that(3)
    by (simp add: caught_Inl)
  have c1: "handle_call_tool E script name arguments s
          = Some (Inr [''Error creating work queue item: Missing arguments''], s, [])"
    if "map_of (workqueues s) (Some name) = Some config"
       "arguments = None \<or> arguments = Some []" for config
    using wq[OF that(1) try_work_queue_missing[OF that(2)]] by simp
  have c2: "handle_call_tool E script name arguments s
          = Some (Inr [''Error creating work queue item: '' @ str_exn e], s, [])"
    if "map_of (workqueues s) (Some name) = Some config" "arguments = Some (a # as)"
       "get_access_token E = Inl e" for config a as e
    using wq[OF that(1) try_work_queue_no_token[OF that(2,3)]] .
  have c3: "handle_call_tool E script name arguments s
          = Some (Inr [''Error starting automation flow: Missing arguments''], s, [])"
    if "map_of (workqueues s) (Some name) = None" "name = ''start-automation-flow''"
       "arguments = None \<or> arguments = Some []"
    using sf[OF that(1,2) try_start_flow_missing[OF that(3)]] by simp
  have c4: "handle_call_tool E script name arguments s
          = Some (Inr [''Error starting automation flow: '' @ str_exn e], s,
                  [POST (AUTOMATIONFLOW_URL E @ ''/'' @ py_str E flow_id @ ''/executions'')
                     token None])"
    if "map_of (workqueues s) (Some name) = None" "name = ''start-automation-flow''"
       "arguments = Some (a # as)" "get_access_token E = Inr token" "token \<noteq> []"
       "map_of (a # as) ''automation_flow_id'' = Some flow_id" "script = Inl e # rest"
    for a as token flow_id e rest
    using sf[OF that(1,2) try_start_flow_request_fails[OF that(3-7)]] .
  have c5: "handle_call_tool E script name arguments s
          = Some (Inr [''Error '' @ kind_name key @ '': '' @ str_exn e], s, [])"
    if "map_of (workqueues s) (Some name) = None"
       "map_of (mapping E) name = Some (url, key, flds)" "get_access_token E = Inl e"
    for url key flds e
    using rt[OF that(1,2) try_retrieve_no_token[OF that(3)]] .
  show ?thesis
    apply (intro conjI impI allI)
    subgoal using known_tool_one_text by blast
    subgoal using known_tool_one_text by blast
    subgoal using wq by blast
    subgoal using sf by blast
    subgoal using rt by blast
    subgoal using c1 by blast
    subgoal using c2 by blast
    subgoal using c3 by blast
    subgoal using c4 by blast
    subgoal using c5 by blast
    subgoal using unknown_tool_raises by blast
    done
qed

text \<open>
  Claim C1 as stated fails: an unknown name, with or without the \<^verbatim>\<open>retrieve-\<close> prefix,
  leaves the handler as a raised \<^verbatim>\<open>ValueError\<close>.
\<close>

theorem handle_call_tool_unknown_counterexample:
  "handle_call_tool demo_env [] ''no-such-tool'' (Some []) init_state
     = Some (Inl (ValueError ''Unknown tool: no-such-tool''), init_state, [])
   \<and> handle_call_tool demo_env [] ''retrieve-everything'' (Some []) init_state
     = Some (Inl (ValueError ''Unknown tool: retrieve-everything''), init_state, [])"
  by (simp add: handle_call_tool_def init_state_def mapping_def)

text \<open>
  Runs that end in the except clause of each branch (missing arguments, a failing request,
  a failing credential exchange), a listing whose first request fails inside the walker,
  and an unknown name.
\<close>

theorem handle_call_tool_boundary_witness:
  "handle_call_tool demo_env [] ''start-automation-flow'' None init_state
     = Some (Inr [''Error starting automation flow: Missing arguments''], init_state, [])
   \<and> handle_call_tool demo_env [Inl (OtherError ''500'')] ''start-automation-flow''
        (Some [(''automation_flow_id'', JStr ''f1'')]) init_state
     = Some (Inr [''Error starting automation flow: 500''], init_state,
             [POST ''https://api/automation-flows/f1/executions'' ''tok'' None])
   \<and> handle_call_tool (demo_env\<lparr>get_access_token := Inl (OtherError ''invalid_client'')\<rparr>) []
        ''retrieve-session-list'' (Some []) init_state
     = Some (Inr [''Error sessions: invalid_client''], init_state, [])
   \<and> handle_call_tool demo_env [] ''submit-invoice'' None queue_state
     = Some (Inr [''Error creating work queue item: Missing arguments''], queue_state, [])
   \<and> handle_call_tool (demo_env\<lparr>get_access_token := Inl (OtherError ''invalid_client'')\<rparr>) []
        ''submit-invoice'' (Some [(''amount'', JStr ''10'')]) queue_state
     = Some (Inr [''Error creating work queue item: invalid_client''], queue_state, [])
   \<and> handle_call_tool demo_env [Inl (OtherError ''503'')] ''retrieve-session-list'' (Some [])
        init_state
     = Some (Inr [''Retrieved 0 sessions.'' @ [CHR 0x0A]],
             init_state\<lparr>internal_resources := (internal_resources init_state)(Sessions := [])\<rparr>,
             [GET ''https://api/sessions'' ''tok'' []])
   \<and> handle_call_tool demo_env [] ''drop-table'' None init_state
     = Some (Inl (ValueError ''Unknown tool: drop-table''), init_state, [])"
proof -
  let ?E' = "demo_env\<lparr>get_access_token := Inl (OtherError ''invalid_client'')\<rparr>"
  have n0: "map_of (workqueues init_state) (Some ''start-automation-flow'') = None"
    by (simp add: init_state_def)
  have n1: "map_of (workqueues init_state) (Some ''retrieve-session-list'') = None"
    by (simp add: init_state_def)
  have q1: "map_of (workqueues queue_state) (Some ''submit-invoice'') = Some row_invoice"
    by (simp add: queue_state_def)
  have mp: "map_of (mapping ?E') ''retrieve-session-list''
              = Some (SESSION_URL ?E', Sessions, [''status'', ''requestedDate''])"
    by (simp add: mapping_def)
  have tk: "get_access_token demo_env = Inr ''tok''"
    by (simp add: demo_env_def)
  have tk': "get_access_token ?E' = Inl (OtherError ''invalid_client'')"
    by simp
  note a = handle_call_tool_boundary[of demo_env init_state "''start-automation-flow''" "[]"
      None, THEN conjunct2, THEN conjunct2, THEN conjunct2, THEN conjunct2, THEN conjunct2, THEN conjunct2, THEN conjunct1, rule_format]
  from a n0
  have w1: "handle_call_tool demo_env [] ''start-automation-flow'' None init_state
     = Some (Inr [''Error starting automation flow: Missing arguments''], init_state, [])"
    by simp
  note b = handle_call_tool_boundary[of demo_env init_state "''start-automation-flow''"
      "[Inl (OtherError ''500'')]" "Some [(''automation_flow_id'', JStr ''f1'')]",
      THEN conjunct2, THEN conjunct2, THEN conjunct2, THEN conjunct2, THEN conjunct2, THEN conjunct2, THEN conjunct2, THEN conjunct1, rule_format,
      of "(''automation_flow_id'', JStr ''f1'')" "[]" "''tok''" "JStr ''f1''" "OtherError ''500''" "[]"]
  from b n0 tk
  have w2: "handle_call_tool demo_env [Inl (OtherError ''500'')] ''start-automation-flow''
        (Some [(''automation_flow_id'', JStr ''f1'')]) init_state
     = Some (Inr [''Error starting automation flow: 500''], init_state,
             [POST ''https://api/automation-flows/f1/executions'' ''tok'' None])"
    by (simp add: AUTOMATIONFLOW_URL_def demo_env_def)
  note c = handle_call_tool_boundary[of ?E' init_state "''retrieve-session-list''" "[]"
      "Some []", THEN conjunct2, THEN conjunct2, THEN conjunct2, THEN conjunct2, THEN conjunct2, THEN conjunct2, THEN conjunct2, THEN conjunct2, THEN conjunct1, rule_format,
      of "SESSION_URL ?E'" Sessions "[''status'', ''requestedDate'']" "OtherError ''invalid_client''"]
  from c n1 mp tk'
  have w3: "handle_call_tool ?E' [] ''retrieve-session-list'' (Some []) init_state
     = Some (Inr [''Error sessions: invalid_client''], init_state, [])"
    by simp
  note d = handle_call_tool_boundary[of demo_env queue_state "''submit-invoice''" "[]" None,
      THEN conjunct2, THEN conjunct2, THEN conjunct2, THEN conjunct2, THEN conjunct1, rule_format, of row_invoice]
  from d q1
  have w4: "handle_call_tool demo_env [] ''submit-invoice'' None queue_state
     = Some (Inr [''Error creating work queue item: Missing arguments''], queue_state, [])"
    by simp
  note e = handle_call_tool_boundary[of ?E' queue_state "''submit-invoice''" "[]"
      "Some [(''amount'', JStr ''10'')]", THEN conjunct2, THEN conjunct2, THEN conjunct2, THEN conjunct2, THEN conjunct2, THEN conjunct1, rule_format,
      of row_invoice "(''amount'', JStr ''10'')" "[]" "OtherError ''invalid_client''"]
  from e q1 tk'
  have w5: "handle_call_tool ?E' [] ''submit-invoice'' (Some [(''amount'', JStr ''10'')])
        queue_state
     = Some (Inr [''Error creating work queue item: invalid_client''], queue_state, [])"
    by simp
  have k: "known_tool demo_env init_state ''retrieve-session-list''"
    by (simp add: known_tool_def mapping_def)
  have f: "\<exists>r\<in>set [Inl (OtherError ''503'') :: response]. final r"
    by (simp add: final_def)
  have run: "handle_call_tool demo_env [Inl (OtherError ''503'')] ''retrieve-session-list''
        (Some []) init_state
     = Some (Inr [''Retrieved 0 sessions.'' @ [CHR 0x0A]],
             init_state\<lparr>internal_resources := (internal_resources init_state)(Sessions := [])\<rparr>,
             [GET ''https://api/sessions'' ''tok'' []])"
    by (simp add: handle_call_tool_def mapping_def try_retrieve_def caught_def
          retrieve_entities_unfold demo_env_def init_state_def notify_def
          format_resource_result_def SESSION_URL_def show_nat_0)
  note g = handle_call_tool_boundary[of demo_env init_state "''retrieve-session-list''"
        "[Inl (OtherError ''503'')]" "Some []", THEN conjunct1, rule_format, OF k]
  from g[THEN conjunct2, rule_format, OF f] run
  have w6: "handle_call_tool demo_env [Inl (OtherError ''503'')] ''retrieve-session-list''
        (Some []) init_state
     = Some (Inr [''Retrieved 0 sessions.'' @ [CHR 0x0A]],
             init_state\<lparr>internal_resources := (internal_resources init_state)(Sessions := [])\<rparr>,
             [GET ''https://api/sessions'' ''tok'' []])"
    by simp
  have nk: "\<not> known_tool demo_env init_state ''drop-table''"
    by (simp add: known_tool_def mapping_def init_state_def)
  note h = handle_call_tool_boundary[of demo_env init_state "''drop-table''" "[]" None,
      THEN conjunct2, THEN conjunct2, THEN conjunct2, THEN conjunct2, THEN conjunct2,
      THEN conjunct2, THEN conjunct2, THEN conjunct2, THEN conjunct2, rule_format, OF nk]
  from h have w7: "handle_call_tool demo_env [] ''drop-table'' None init_state
     = Some (Inl (ValueError ''Unknown tool: drop-table''), init_state, [])"
    by simp
  from w1 w2 w3 w4 w5 w6 w7 show ?thesis by (intro conjI)
qed

section \<open>Properties of the tool table\<close>






section \<open>Properties of the resource reader\<close>

text \<open>
  Claim C9, as amended. A failure of the detail request is returned from
  \<^verbatim>\<open>handle_read_resource\<close> as a text, the JSON object with the field \<^verbatim>\<open>error\<close>; an
  unsupported URI scheme is raised as \<^verbatim>\<open>ValueError\<close> naming the scheme, before any
  request is sent.
\<close>

theorem read_resource_failures:
  "(map_of (scheme_to_url E) (scheme u) = None \<longrightarrow>
      handle_read_resource E script u
        = Some (Inl (ValueError (''Unsupported URI scheme: '' @ scheme u)), []))
   \<and> (\<forall>base p token e rest.
        map_of (scheme_to_url E) (scheme u) = Some base \<and> path u = Some p
        \<and> get_access_token E = Inr token \<and> script = Inl e # rest \<longrightarrow>
        (\<exists>req. handle_read_resource E script u
                 = Some (Inr (json_dumps E True (JObj [(''error'', JStr (str_exn e))])), [req])
               \<and> req_method req = ''GET'' \<and> req_token req = token))"
  by (auto simp: handle_read_resource_def Let_def)

text \<open>
  Claim C9 as stated fails: a URI with an unsupported scheme leaves the handler as a
  raised \<^verbatim>\<open>ValueError\<close>, not as a text.
\<close>

theorem read_resource_unsupported_counterexample:
  "handle_read_resource demo_env [] \<lparr>scheme = ''ftp'', path = Some ''/x''\<rparr>
     = Some (Inl (ValueError ''Unsupported URI scheme: ftp''), [])"
  by (simp add: handle_read_resource_def scheme_to_url_def)

text \<open>An unsupported scheme, and a log request answered with 404.\<close>

theorem read_resource_failures_witness:
  "handle_read_resource demo_env [] \<lparr>scheme = ''workqueues'', path = Some ''/x''\<rparr>
     = Some (Inl (ValueError ''Unsupported URI scheme: workqueues''), [])
   \<and> (\<exists>req. handle_read_resource demo_env [Inl (OtherError ''404'')]
               \<lparr>scheme = ''activitylog'', path = Some ''/e1''\<rparr>
             = Some (Inr (json_dumps demo_env True (JObj [(''error'', JStr ''404'')])), [req])
           \<and> req_method req = ''GET'' \<and> req_token req = ''tok'')
   \<and> handle_read_resource demo_env [Inl (OtherError ''404'')]
        \<lparr>scheme = ''activitylog'', path = Some ''/e1''\<rparr>
       = Some (Inr ''{}'',
               [\<lparr>req_method = ''GET'',
                  req_url = ''https://api/automation-flows/executions/e1/logs'',
                  req_token = ''tok'', req_params = None, req_json = None\<rparr>])"
proof -
  have a: "map_of (scheme_to_url demo_env) (scheme \<lparr>scheme = ''workqueues'', path = Some ''/x''\<rparr>)
             = None"
    by (simp add: scheme_to_url_def)
  have b: "map_of (scheme_to_url demo_env)
               (scheme \<lparr>scheme = ''activitylog'', path = Some ''/e1''\<rparr>)
             = Some (ACTIVITYLOG_URL demo_env)
           \<and> path \<lparr>scheme = ''activitylog'', path = Some ''/e1''\<rparr> = Some ''/e1''
           \<and> get_access_token demo_env = Inr ''tok''
           \<and> [Inl (OtherError ''404'') :: response] = Inl (OtherError ''404'') # []"
    by (simp add: scheme_to_url_def demo_env_def)
  have c: "handle_read_resource demo_env [Inl (OtherError ''404'')]
        \<lparr>scheme = ''activitylog'', path = Some ''/e1''\<rparr>
       = Some (Inr ''{}'',
               [\<lparr>req_method = ''GET'',
                  req_url = ''https://api/automation-flows/executions/e1/logs'',
                  req_token = ''tok'', req_params = None, req_json = None\<rparr>])"
    by (simp add: handle_read_resource_def scheme_to_url_def demo_env_def ACTIVITYLOG_URL_def)
  from read_resource_failures[of demo_env "\<lparr>scheme = ''workqueues'', path = Some ''/x''\<rparr>" "[]"] a
  have w1: "handle_read_resource demo_env [] \<lparr>scheme = ''workqueues'', path = Some ''/x''\<rparr>
     = Some (Inl (ValueError ''Unsupported URI scheme: workqueues''), [])"
    by simp
  from read_resource_failures[of demo_env "\<lparr>scheme = ''activitylog'', path = Some ''/e1''\<rparr>"
      "[Inl (OtherError ''404'')]"] b
  have w2: "\<exists>req. handle_read_resource demo_env [Inl (OtherError ''404'')]
               \<lparr>scheme = ''activitylog'', path = Some ''/e1''\<rparr>
             = Some (Inr (json_dumps demo_env True (JObj [(''error'', JStr ''404'')])), [req])
           \<and> req_method req = ''GET'' \<and> req_token req = ''tok''"
    by (metis str_exn.simps(5))
  from w1 w2 c show ?thesis by blast
qed

end
